theory Spec2Isabelle
  imports Complex_Main "HOL-Library.AList"
begin

section \<open>Adaptive learning: data model (services/adaptive\_learning.py)\<close>

text \<open>
  Python dictionaries keep insertion order, and the code iterates over them, so they are
  association lists here: \<open>map_of\<close> is the lookup, \<open>AList.update\<close> the assignment
  \<open>d[k] = v\<close> (in place for a key that is present, appended for a new key).
  Python ints are \<open>int\<close>. A Python float is the real number it denotes.
\<close>

datatype py_exception = KeyError string | PyException string

record QuestionAttempt =
  question_id :: string
  topic :: string
  difficulty :: string
  cognitive_level :: string
  correct :: bool
  time_taken :: real
  timestamp :: nat
  confidence :: real

text \<open>The inner dictionaries \<open>{'correct': c, 'total': t}\<close>.\<close>

record stats =
  s_correct :: int
  s_total :: int

type_synonym topic_stats = "(string \<times> stats) list"

text \<open>
  \<open>recent_times\<close> and \<open>recent_attempts\<close> are not dataclass fields: the code reads them with
  \<open>hasattr\<close> and \<open>getattr\<close>. \<open>None\<close> is an absent attribute.
\<close>

record StudentProfile =
  user_id :: string
  topic_performance :: "(string \<times> topic_stats) list"
  cognitive_levels :: "(string \<times> stats) list"
  learning_pace :: real
  preferred_difficulty :: string
  last_activity :: nat
  total_questions :: int
  correct_answers :: int
  recent_times :: "real list option"
  recent_attempts :: "QuestionAttempt list option"

type_synonym students = "string \<rightharpoonup> StudentProfile"

definition zero_stats :: stats where
  "zero_stats = \<lparr>s_correct = 0, s_total = 0\<rparr>"

definition new_topic_stats :: topic_stats where
  "new_topic_stats = [(''easy'', zero_stats), (''medium'', zero_stats), (''hard'', zero_stats)]"

definition new_profile :: "string \<Rightarrow> nat \<Rightarrow> StudentProfile" where
  "new_profile uid now =
     \<lparr>user_id = uid, topic_performance = [], cognitive_levels = [], learning_pace = 0,
      preferred_difficulty = ''medium'', last_activity = now, total_questions = 0,
      correct_answers = 0, recent_times = None, recent_attempts = None\<rparr>"

text \<open>\<open>s['total'] += 1; if attempt.correct: s['correct'] += 1\<close>\<close>

definition tally :: "bool \<Rightarrow> stats \<Rightarrow> stats" where
  "tally c s = \<lparr>s_correct = (if c then s_correct s + 1 else s_correct s), s_total = s_total s + 1\<rparr>"

text \<open>
  Double-precision arithmetic. An operation on doubles returns the exact result rounded to
  the nearest binary64 number, ties to even: \<open>fl64\<close> is that rounding (53 significant bits,
  least exponent -1022 so that subnormals are covered; overflow to infinity needs a
  magnitude of at least \<open>2^1024\<close> and is left out). A literal such as \<open>0.7\<close> denotes
  \<open>fl64 (7 / 10)\<close>, and comparisons of doubles are comparisons of the reals they denote.
\<close>

definition round_half_even :: "real \<Rightarrow> int" where
  "round_half_even x =
     (let f = \<lfloor>x\<rfloor>; d = x - of_int f
      in if d < 1 / 2 then f else if d > 1 / 2 then f + 1 else if even f then f else f + 1)"

definition fl64 :: "real \<Rightarrow> real" where
  "fl64 x =
     (if x = 0 then 0
      else (let e = max \<lfloor>log 2 \<bar>x\<bar>\<rfloor> (- 1022); ulp = 2 powi (e - 52)
            in of_int (round_half_even (x / ulp)) * ulp))"

definition mean :: "real list \<Rightarrow> real" where
  "mean xs = sum_list xs / real (length xs)"

text \<open>The slice \<open>xs[-n:]\<close> for a positive \<open>n\<close>.\<close>

definition last_n :: "nat \<Rightarrow> 'a list \<Rightarrow> 'a list" where
  "last_n n xs = drop (length xs - n) xs"

definition update_learning_pace :: "StudentProfile \<Rightarrow> QuestionAttempt \<Rightarrow> StudentProfile" where
  "update_learning_pace profile attempt =
     (let times0 = (case recent_times profile of None \<Rightarrow> [] | Some ts \<Rightarrow> ts);
          times1 = times0 @ [time_taken attempt];
          times2 = (if length times1 > 20 then last_n 20 times1 else times1);
          avg_time = mean times2
      in profile\<lparr>recent_times := Some times2,
                  learning_pace := (if avg_time > 0 then 60 / avg_time else 0)\<rparr>)"

definition difficulties :: "string list" where
  "difficulties = [''easy'', ''medium'', ''hard'']"

text \<open>
  The double loop of \<open>_update_preferred_difficulty\<close> visits every (difficulty, stats) item of
  every topic, in order, and accumulates only those with \<open>total > 0\<close>. The accumulators are
  indexed by the item's key, so a key outside the three difficulties raises KeyError.
  The scores, their running sum (from \<open>0.0\<close>, in the order of the visit) and the average are
  doubles.
\<close>

definition scored_items :: "StudentProfile \<Rightarrow> (string \<times> stats) list" where
  "scored_items profile =
     filter (\<lambda>(d, s). s_total s > 0) (concat (map snd (topic_performance profile)))"

definition avg_score :: "(string \<times> stats) list \<Rightarrow> string \<Rightarrow> real" where
  "avg_score items d =
     (let scores = map (\<lambda>(d', s). fl64 (real_of_int (s_correct s) / real_of_int (s_total s)))
                       (filter (\<lambda>(d', s). d' = d) items);
          total = foldl (\<lambda>acc score. fl64 (acc + score)) 0 scores
      in if length scores > 0 then fl64 (total / real (length scores)) else 0)"

definition update_preferred_difficulty :: "StudentProfile \<Rightarrow> py_exception + StudentProfile" where
  "update_preferred_difficulty profile =
     (let items = scored_items profile in
      case find (\<lambda>(d, s). d \<notin> set difficulties) items of
        Some (d, s) \<Rightarrow> Inl (KeyError d)
      | None \<Rightarrow>
          Inr (profile\<lparr>preferred_difficulty :=
                 (if avg_score items ''hard'' \<ge> fl64 (7 / 10) then ''hard''
                  else if avg_score items ''medium'' \<ge> fl64 (6 / 10) then ''medium''
                  else ''easy'')\<rparr>))"

text \<open>
  The body of \<open>record_attempt\<close> once the profile is fetched, block by block as the code
  comments name them. The profile object is mutated in place, so the updates made before
  an exception stay: a step that can raise returns the profile it leaves behind together
  with the exception (\<open>Inl\<close>) or the normal return (\<open>Inr ()\<close>).
  \<open>_save_data\<close> catches every exception of its own and does not change the profiles.
\<close>

definition update_basic_stats :: "nat \<Rightarrow> StudentProfile \<Rightarrow> QuestionAttempt \<Rightarrow> StudentProfile" where
  "update_basic_stats now profile attempt =
     profile\<lparr>total_questions := total_questions profile + 1,
             correct_answers := (if correct attempt then correct_answers profile + 1
                                 else correct_answers profile),
             last_activity := now\<rparr>"

text \<open>\<open>if attempt.topic not in profile.topic_performance: ... = {'easy': ..., 'medium': ..., 'hard': ...}\<close>\<close>

definition ensure_topic :: "string \<Rightarrow> (string \<times> topic_stats) list \<Rightarrow> (string \<times> topic_stats) list" where
  "ensure_topic t tp = (if map_of tp t = None then AList.update t new_topic_stats tp else tp)"

definition update_topic_performance ::
  "StudentProfile \<Rightarrow> QuestionAttempt \<Rightarrow> (py_exception + unit) \<times> StudentProfile" where
  "update_topic_performance profile attempt =
     (let tp = ensure_topic (topic attempt) (topic_performance profile);
          p2 = profile\<lparr>topic_performance := tp\<rparr>
      in case map_of tp (topic attempt) of
           None \<Rightarrow> (Inl (KeyError (topic attempt)), p2)
         | Some ts \<Rightarrow>
            (case map_of ts (difficulty attempt) of
               None \<Rightarrow> (Inl (KeyError (difficulty attempt)), p2)
             | Some st \<Rightarrow>
                (Inr (),
                 p2\<lparr>topic_performance :=
                      AList.update (topic attempt)
                        (AList.update (difficulty attempt) (tally (correct attempt) st) ts) tp\<rparr>)))"

definition update_cognitive_level :: "StudentProfile \<Rightarrow> QuestionAttempt \<Rightarrow> StudentProfile" where
  "update_cognitive_level profile attempt =
     (let cl = (if map_of (cognitive_levels profile) (cognitive_level attempt) = None
                then AList.update (cognitive_level attempt) zero_stats (cognitive_levels profile)
                else cognitive_levels profile);
          cl' = (case map_of cl (cognitive_level attempt) of
                   None \<Rightarrow> cl
                 | Some cs \<Rightarrow> AList.update (cognitive_level attempt) (tally (correct attempt) cs) cl)
      in profile\<lparr>cognitive_levels := cl'\<rparr>)"

definition record_attempt_profile ::
  "nat \<Rightarrow> StudentProfile \<Rightarrow> QuestionAttempt \<Rightarrow> (py_exception + unit) \<times> StudentProfile" where
  "record_attempt_profile now profile attempt =
     (let p1 = update_basic_stats now profile attempt
      in case update_topic_performance p1 attempt of
           (Inl e, p2) \<Rightarrow> (Inl e, p2)
         | (Inr u, p3) \<Rightarrow>
            (let p4 = update_cognitive_level p3 attempt;
                 p5 = update_learning_pace p4 attempt
             in case update_preferred_difficulty p5 of
                  Inl e \<Rightarrow> (Inl e, p5)
                | Inr p6 \<Rightarrow> (Inr (), p6)))"

definition record_attempt ::
  "nat \<Rightarrow> students \<Rightarrow> string \<Rightarrow> QuestionAttempt \<Rightarrow> (py_exception + unit) \<times> students" where
  "record_attempt now studs uid attempt =
     (let profile = (case studs uid of None \<Rightarrow> new_profile uid now | Some p \<Rightarrow> p);
          (r, profile') = record_attempt_profile now profile attempt
      in (r, studs(uid \<mapsto> profile')))"

text \<open>
  A sequence of calls for one user. The profiles live in a module-level object, so a call
  that raised leaves its partial update behind and the next call goes on from there.
\<close>

fun record_all :: "nat \<Rightarrow> students \<Rightarrow> string \<Rightarrow> QuestionAttempt list \<Rightarrow> students" where
  "record_all now studs uid [] = studs"
| "record_all now studs uid (a # as) = record_all now (snd (record_attempt now studs uid a)) uid as"


subsection \<open>Difficulty recommender\<close>

text \<open>
  \<open>topic\<close> defaults to \<open>None\<close>; the guard \<open>if topic and topic in profile.topic_performance\<close>
  also rejects the empty string, which is falsy in Python.
\<close>

definition topic_score :: "stats \<Rightarrow> real" where
  "topic_score s = (if s_total s \<ge> 3 then real_of_int (s_correct s) / real_of_int (s_total s) else 0)"

definition scores_get :: "(string \<times> real) list \<Rightarrow> string \<Rightarrow> real" where
  "scores_get scores d = (case map_of scores d of None \<Rightarrow> 0 | Some x \<Rightarrow> x)"

definition get_recommended_difficulty :: "students \<Rightarrow> string \<Rightarrow> string option \<Rightarrow> string" where
  "get_recommended_difficulty studs uid topic_arg =
     (case studs uid of
        None \<Rightarrow> ''medium''
      | Some profile \<Rightarrow>
         (case (case topic_arg of
                  None \<Rightarrow> None
                | Some t \<Rightarrow> if t \<noteq> [] then map_of (topic_performance profile) t else None) of
            Some ts \<Rightarrow>
              (let scores = map (\<lambda>(d, s). (d, topic_score s)) ts
               in if scores_get scores ''hard'' \<ge> 7 / 10 then ''hard''
                  else if scores_get scores ''medium'' \<ge> 6 / 10 then ''medium''
                  else ''easy'')
          | None \<Rightarrow> preferred_difficulty profile))"

subsection \<open>Weak topics and strength analysis\<close>

definition total_correct :: "topic_stats \<Rightarrow> int" where
  "total_correct ts = sum_list (map (\<lambda>(d, s). s_correct s) ts)"

definition total_attempts :: "topic_stats \<Rightarrow> int" where
  "total_attempts ts = sum_list (map (\<lambda>(d, s). s_total s) ts)"

definition accuracy :: "topic_stats \<Rightarrow> real" where
  "accuracy ts = real_of_int (total_correct ts) / real_of_int (total_attempts ts)"

text \<open>The slice \<open>xs[:limit]\<close>: a negative limit counts from the end.\<close>

definition slice_to :: "int \<Rightarrow> 'a list \<Rightarrow> 'a list" where
  "slice_to limit xs =
     (if limit \<ge> 0 then take (nat limit) xs else take (length xs - nat (- limit)) xs)"

text \<open>\<open>list.sort(key=...)\<close> is stable, as \<open>sort_key\<close> is.\<close>

definition get_weak_topics :: "students \<Rightarrow> string \<Rightarrow> int \<Rightarrow> (string \<times> real) list" where
  "get_weak_topics studs uid limit =
     (case studs uid of
        None \<Rightarrow> []
      | Some profile \<Rightarrow>
         (let topic_scores = map (\<lambda>(t, ts). (t, accuracy ts))
                               (filter (\<lambda>(t, ts). total_attempts ts \<ge> 5) (topic_performance profile))
          in slice_to limit (sort_key snd topic_scores)))"

fun join :: "string \<Rightarrow> string list \<Rightarrow> string" where
  "join sep [] = []"
| "join sep [x] = x"
| "join sep (x # y # ys) = x @ sep @ join sep (y # ys)"

record strength_analysis =
  overall_score :: real
  sa_total_questions :: int
  sa_correct_answers :: int
  sa_learning_pace :: real
  sa_preferred_difficulty :: string
  weak_topics :: "(string \<times> real) list"
  sa_topic_performance :: "(string \<times> real) list"
  sa_cognitive_levels :: "(string \<times> int) list"
  recommendations :: "string list"

text \<open>
  The loop \<open>for cognitive_level, stats in profile.cognitive_levels.items():
  if cognitive_level in cognitive_levels: cognitive_levels[cognitive_level] = stats['total']\<close>.
\<close>

definition count_levels :: "(string \<times> stats) list \<Rightarrow> (string \<times> int) list \<Rightarrow> (string \<times> int) list" where
  "count_levels levels init =
     fold (\<lambda>(cl, s) acc. if map_of acc cl \<noteq> None then AList.update cl (s_total s) acc else acc)
          levels init"

definition get_strength_analysis :: "students \<Rightarrow> string \<Rightarrow> strength_analysis" where
  "get_strength_analysis studs uid =
     (case studs uid of
        None \<Rightarrow>
          \<lparr>overall_score = 0, sa_total_questions = 0, sa_correct_answers = 0,
           sa_learning_pace = 0, sa_preferred_difficulty = ''medium'', weak_topics = [],
           sa_topic_performance = [],
           sa_cognitive_levels = [(''easy'', 0), (''medium'', 0), (''hard'', 0)],
           recommendations = []\<rparr>
      | Some profile \<Rightarrow>
         (let score = (if total_questions profile > 0
                       then real_of_int (correct_answers profile) / real_of_int (total_questions profile)
                       else 0);
              perf = map (\<lambda>(t, ts). (t, if total_attempts ts > 0 then accuracy ts else 0))
                         (topic_performance profile);
              levels = count_levels (cognitive_levels profile)
                         [(''easy'', 0), (''medium'', 0), (''hard'', 0)];
              rec1 = (if score < 5 / 10
                      then ''Focus on fundamental concepts and basic recall questions''
                      else if score < 7 / 10
                      then ''Practice application-based questions to improve understanding''
                      else ''Challenge yourself with analytical and complex problem-solving questions'');
              weak = get_weak_topics studs uid 3;
              recs = (if weak \<noteq> []
                      then [rec1, ''Focus on improving: '' @ join '', '' (map fst weak)]
                      else [rec1])
          in \<lparr>overall_score = score, sa_total_questions = total_questions profile,
              sa_correct_answers = correct_answers profile,
              sa_learning_pace = learning_pace profile,
              sa_preferred_difficulty = preferred_difficulty profile, weak_topics = weak,
              sa_topic_performance = perf, sa_cognitive_levels = levels,
              recommendations = recs\<rparr>))"

subsection \<open>Adaptive session policy\<close>

record adaptive_questions =
  recommended_difficulty :: string
  num_questions :: int
  aq_topic :: string
  adaptive_reasoning :: string

definition recent_score :: "QuestionAttempt list \<Rightarrow> real" where
  "recent_score as = real (length (filter correct as)) / real (length as)"

definition generate_adaptive_questions ::
  "students \<Rightarrow> string \<Rightarrow> string \<Rightarrow> int \<Rightarrow> adaptive_questions" where
  "generate_adaptive_questions studs uid tpc n =
     (let rec0 = get_recommended_difficulty studs uid (Some tpc);
          rec1 = (case studs uid of
                    None \<Rightarrow> rec0
                  | Some profile \<Rightarrow>
                     (let recent = last_n 10 (case recent_attempts profile of
                                                None \<Rightarrow> [] | Some as \<Rightarrow> as)
                      in if recent \<noteq> []
                         then (if recent_score recent > 8 / 10 \<and> rec0 \<noteq> ''hard'' then ''hard''
                               else if recent_score recent < 4 / 10 \<and> rec0 \<noteq> ''easy'' then ''easy''
                               else rec0)
                         else rec0))
      in \<lparr>recommended_difficulty = rec1, num_questions = n, aq_topic = tpc,
          adaptive_reasoning = ''Based on your performance in '' @ tpc @ '', we recommend ''
                                 @ rec1 @ '' level questions''\<rparr>)"

section \<open>Retrieval-augmented answering (services/rag\_service.py)\<close>

text \<open>
  The retrieved chunks are the dictionaries built by \<open>search_relevant_content\<close>. The language
  model is a parameter: \<open>llm prompt\<close> is \<open>Inr answer\<close>, or \<open>Inl e\<close> when
  \<open>llm_service.generate_answer\<close> raises. An answer dictionary is a record; the error
  dictionaries have no \<open>'context_chunks'\<close> key.

  Distances and confidences are doubles. \<open>np.mean\<close> and \<open>round(x, 2)\<close> on a numpy double are
  numpy's own; they are parameters of the model, which holds for whatever doubles they
  return.
\<close>

record float_lib =
  np_mean :: "real list \<Rightarrow> real"
  py_round2 :: "real \<Rightarrow> real"

record chunk =
  content :: string
  metadata :: "(string \<times> string) list"
  distance :: real
  chunk_id :: "string option"

record answer_result =
  answer :: string
  answer_confidence :: real
  sources :: "string list"
  context_chunks :: "int option"
  answer_type :: string

definition error_answer :: "string \<Rightarrow> answer_result" where
  "error_answer msg =
     \<lparr>answer = msg, answer_confidence = 0, sources = [], context_chunks = None,
      answer_type = ''error''\<rparr>"

definition lines :: "string list \<Rightarrow> string" where
  "lines ls = join ''\<newline>'' ls"

definition general_prompt_with_context :: "string \<Rightarrow> string \<Rightarrow> string" where
  "general_prompt_with_context query context_text = lines
     [''The student asked: '' @ query,
      [],
      ''I have some related curriculum content, but it may not be directly relevant:'',
      context_text,
      [],
      ''Please provide a comprehensive answer using your general knowledge. If the curriculum content is relevant, incorporate it. If not, provide a thorough explanation based on general knowledge.'',
      [],
      ''Please include:'',
      ''1. A clear, accurate answer'',
      ''2. Additional context and explanations'',
      ''3. Related concepts that might be helpful'',
      ''4. Suggestions for further learning if applicable'',
      [],
      ''Answer:'']"

definition general_prompt :: "string \<Rightarrow> string" where
  "general_prompt query = lines
     [''The student asked: '' @ query,
      [],
      ''Please provide a comprehensive answer using your general knowledge. This appears to be a general question not covered in the uploaded curriculum materials.'',
      [],
      ''Please include:'',
      ''1. A clear, accurate answer'',
      ''2. Additional context and explanations'',
      ''3. Related concepts that might be helpful'',
      ''4. Suggestions for further learning if applicable'',
      [],
      ''Answer:'']"

definition curriculum_prompt :: "string \<Rightarrow> string \<Rightarrow> string" where
  "curriculum_prompt query context_text = lines
     [''Based on the following curriculum content, please answer the student's question accurately and helpfully.'',
      [],
      ''Context from curriculum:'',
      context_text,
      [],
      ''Student's Question: '' @ query,
      [],
      ''Please provide:'',
      ''1. A clear, accurate answer based on the curriculum content'',
      ''2. Additional explanation if needed'',
      ''3. Any important concepts the student should understand'',
      [],
      ''Answer:'']"

text \<open>
  \<open>_generate_general_knowledge_answer(query, llm_service, context_chunks=None)\<close>:
  \<open>if context_chunks\<close> is false for \<open>None\<close> and for the empty list.
\<close>

definition generate_general_knowledge_answer ::
  "(string \<Rightarrow> py_exception + string) \<Rightarrow> string \<Rightarrow> chunk list option \<Rightarrow> answer_result" where
  "generate_general_knowledge_answer llm query chunks_arg =
     (let chunks = (case chunks_arg of None \<Rightarrow> [] | Some cs \<Rightarrow> cs);
          prompt = (if chunks \<noteq> []
                    then general_prompt_with_context query
                           (join ''\<newline>\<newline>'' (map content (take 2 chunks)))
                    else general_prompt query)
      in case llm prompt of
           Inl e \<Rightarrow>
             error_answer ''I'm sorry, I'm having trouble generating an answer right now. Please try again or rephrase your question.''
         | Inr a \<Rightarrow>
             \<lparr>answer = a, answer_confidence = fl64 (7 / 10), sources = [''General Knowledge''],
              context_chunks = Some (if chunks \<noteq> [] then int (length chunks) else 0),
              answer_type = ''general_knowledge''\<rparr>)"

definition chunk_source :: "chunk \<Rightarrow> string" where
  "chunk_source c = (case map_of (metadata c) ''pdf_filename'' of None \<Rightarrow> ''Unknown'' | Some f \<Rightarrow> f)"

text \<open>
  \<open>list(set(sources))\<close> keeps one copy of each source in an order Python does not fix;
  \<open>remdups\<close> picks one such order, and the theorems speak of the set only.
\<close>

text \<open>
  \<open>confidence = max(0.1, 1.0 - np.mean([chunk['distance'] for chunk in context_chunks]))\<close>:
  the mean is numpy's, the subtraction is a double subtraction, and \<open>max\<close> compares doubles.
\<close>

definition context_confidence :: "float_lib \<Rightarrow> chunk list \<Rightarrow> real" where
  "context_confidence lib chunks =
     max (fl64 (1 / 10)) (fl64 (1 - np_mean lib (map distance chunks)))"

definition generate_answer_with_context ::
  "float_lib \<Rightarrow> (string \<Rightarrow> py_exception + string) \<Rightarrow> string \<Rightarrow> chunk list \<Rightarrow> answer_result" where
  "generate_answer_with_context lib llm query chunks =
     (if chunks = [] then generate_general_knowledge_answer llm query None
      else
        (let context_text = join ''\<newline>\<newline>'' (map content chunks);
             srcs = map chunk_source chunks;
             conf = context_confidence lib chunks
         in if conf < fl64 (3 / 10) then generate_general_knowledge_answer llm query (Some chunks)
            else
              (case llm (curriculum_prompt query context_text) of
                 Inl e \<Rightarrow>
                   error_answer ''Sorry, I encountered an error while generating the answer. Please try again.''
               | Inr a \<Rightarrow>
                   \<lparr>answer = a, answer_confidence = py_round2 lib conf, sources = remdups srcs,
                    context_chunks = Some (int (length chunks)),
                    answer_type = ''curriculum_based''\<rparr>)))"

text \<open>
  \<open>process_question\<close>: \<open>search\<close> is \<open>search_relevant_content(query, top_k=5)\<close>, which returns
  the empty list on every failure of its own. The second component is the question-answer
  pair handed to \<open>save_question_answer\<close> when \<open>user_id\<close> is given and not empty; that
  method returns \<open>False\<close> on failure and does not raise. Every callee catches its own
  exceptions, and every answer has an \<open>'answer_type'\<close>.
\<close>

definition process_question ::
  "float_lib \<Rightarrow> (string \<Rightarrow> chunk list) \<Rightarrow> (string \<Rightarrow> py_exception + string) \<Rightarrow> string
     \<Rightarrow> string option \<Rightarrow> answer_result \<times> (string \<times> answer_result \<times> string) option" where
  "process_question lib search llm query uid =
     (let chunks = search query;
          answer_result = generate_answer_with_context lib llm query chunks;
          saved = (case uid of
                     None \<Rightarrow> None
                   | Some u \<Rightarrow> if u \<noteq> [] then Some (query, answer_result, u) else None)
      in (answer_result, saved))"

section \<open>Auxiliary notions for the statements\<close>

text \<open>The profile a call works on: the stored one, or the fresh one it creates.\<close>

definition current_profile :: "nat \<Rightarrow> students \<Rightarrow> string \<Rightarrow> StudentProfile" where
  "current_profile now studs uid = (case studs uid of None \<Rightarrow> new_profile uid now | Some p \<Rightarrow> p)"

text \<open>A sequence of calls seen from the profile they mutate.\<close>

fun feed :: "nat \<Rightarrow> StudentProfile \<Rightarrow> QuestionAttempt list \<Rightarrow> StudentProfile" where
  "feed now p [] = p"
| "feed now p (a # as) = feed now (snd (record_attempt_profile now p a)) as"

text \<open>
  What every profile made by \<open>record_attempt\<close> satisfies: dictionary keys are distinct, and
  every topic has exactly the three pre-initialised buckets.
\<close>

definition wf_tp :: "(string \<times> topic_stats) list \<Rightarrow> bool" where
  "wf_tp tp \<longleftrightarrow> distinct (map fst tp) \<and> (\<forall>x \<in> set tp. map fst (snd x) = difficulties)"

definition wf_profile :: "StudentProfile \<Rightarrow> bool" where
  "wf_profile p \<longleftrightarrow> wf_tp (topic_performance p) \<and> distinct (map fst (cognitive_levels p))"

text \<open>The sum over all topics and difficulty buckets of the per-bucket totals.\<close>

definition tp_total :: "(string \<times> topic_stats) list \<Rightarrow> int" where
  "tp_total tp = sum_list (map (\<lambda>(t, ts). total_attempts ts) tp)"

definition bucket_total :: "StudentProfile \<Rightarrow> int" where
  "bucket_total p = tp_total (topic_performance p)"

definition times_of :: "StudentProfile \<Rightarrow> real list" where
  "times_of p = (case recent_times p of None \<Rightarrow> [] | Some ts \<Rightarrow> ts)"

definition valid_difficulty :: "QuestionAttempt \<Rightarrow> bool" where
  "valid_difficulty a \<longleftrightarrow> difficulty a \<in> set difficulties"

text \<open>\<open>60.0 / avg_time if avg_time > 0 else 0.0\<close> for the mean of a list of times.\<close>

definition pace_of :: "real list \<Rightarrow> real" where
  "pace_of ts = (if mean ts > 0 then 60 / mean ts else 0)"

text \<open>
  The score of a difficulty bucket of one topic as the specification words it:
  \<open>correct/total\<close> when the bucket has at least 3 attempts, otherwise 0.
\<close>

definition bucket_score :: "topic_stats \<Rightarrow> string \<Rightarrow> real" where
  "bucket_score ts d =
     (case map_of ts d of
        None \<Rightarrow> 0
      | Some s \<Rightarrow> if 3 \<le> s_total s then real_of_int (s_correct s) / real_of_int (s_total s) else 0)"

text \<open>The one prompt that \<open>generate_answer_with_context\<close> sends to the language model.\<close>

definition prompt_for :: "float_lib \<Rightarrow> string \<Rightarrow> chunk list \<Rightarrow> string" where
  "prompt_for lib query chunks =
     (if chunks = [] then general_prompt query
      else if context_confidence lib chunks < fl64 (3 / 10)
      then general_prompt_with_context query
             (join ''\<newline>\<newline>'' (map content (take 2 chunks)))
      else curriculum_prompt query (join ''\<newline>\<newline>'' (map content chunks)))"

text \<open>
  numpy on a list of fewer than eight doubles: \<open>np.mean\<close> accumulates the sum from \<open>0.0\<close>,
  left to right, and divides it by the count; \<open>round(x, 2)\<close> on a numpy double multiplies by
  100, rounds to the nearest integer (ties to even) and divides by 100. This instance is
  used to run the answerer on concrete chunks.
\<close>

definition np_mean_seq :: "real list \<Rightarrow> real" where
  "np_mean_seq xs = fl64 (foldl (\<lambda>acc x. fl64 (acc + x)) 0 xs / real (length xs))"

definition np_round2 :: "real \<Rightarrow> real" where
  "np_round2 x = fl64 (real_of_int (round_half_even (fl64 (x * 100))) / 100)"

definition numpy_lib :: float_lib where
  "numpy_lib = \<lparr>np_mean = np_mean_seq, py_round2 = np_round2\<rparr>"

text \<open>
  Chunks at the edge of the confidence threshold. For the distances 0.3 and 1.1 the sum of the
  two doubles is 1.4000000000000001, the mean 0.7000000000000001 and the confidence
  0.29999999999999993. For the distances 0.7 and 0.7000000000000001 the mean is 0.7 and
  the confidence 0.30000000000000004.
\<close>

definition chunks_below_threshold :: "chunk list" where
  "chunks_below_threshold =
     [\<lparr>content = ''c1'', metadata = [], distance = fl64 (3 / 10), chunk_id = None\<rparr>,
      \<lparr>content = ''c2'', metadata = [], distance = fl64 (11 / 10), chunk_id = None\<rparr>]"

definition chunks_above_threshold :: "chunk list" where
  "chunks_above_threshold =
     [\<lparr>content = ''c1'', metadata = [(''pdf_filename'', ''a.pdf'')],
       distance = fl64 (7 / 10), chunk_id = None\<rparr>,
      \<lparr>content = ''c2'', metadata = [(''pdf_filename'', ''a.pdf'')],
       distance = 6305039478318695 / 9007199254740992, chunk_id = None\<rparr>]"

text \<open>
  A profile whose three "hard" buckets have the scores 3/5, 7/10 and 4/5: their sum in
  doubles is 2.0999999999999996 and the average 0.6999999999999998.
\<close>

definition hard_profile :: StudentProfile where
  "hard_profile =
     \<lparr>user_id = ''u1'',
      topic_performance =
        [(''A'', [(''easy'', \<lparr>s_correct = 0, s_total = 0\<rparr>),
                  (''medium'', \<lparr>s_correct = 0, s_total = 0\<rparr>),
                  (''hard'', \<lparr>s_correct = 3, s_total = 5\<rparr>)]),
         (''B'', [(''easy'', \<lparr>s_correct = 0, s_total = 0\<rparr>),
                  (''medium'', \<lparr>s_correct = 0, s_total = 0\<rparr>),
                  (''hard'', \<lparr>s_correct = 7, s_total = 10\<rparr>)]),
         (''C'', [(''easy'', \<lparr>s_correct = 0, s_total = 0\<rparr>),
                  (''medium'', \<lparr>s_correct = 0, s_total = 0\<rparr>),
                  (''hard'', \<lparr>s_correct = 4, s_total = 5\<rparr>)])],
      cognitive_levels = [(''recall'', \<lparr>s_correct = 14, s_total = 20\<rparr>)],
      learning_pace = 12, preferred_difficulty = ''medium'', last_activity = 0,
      total_questions = 20, correct_answers = 14,
      recent_times = Some [5, 5, 5, 5, 5, 5, 5, 5, 5, 5, 5, 5, 5, 5, 5, 5, 5, 5, 5, 5],
      recent_attempts = None\<rparr>"

text \<open>
  A profile used to instantiate the statements on weak topics: "Algebra" has 4 attempts,
  all wrong; "Geometry" has 5 attempts with one correct; "Physics" has 6, all correct.
\<close>

definition example_profile :: StudentProfile where
  "example_profile =
     \<lparr>user_id = ''u1'',
      topic_performance =
        [(''Algebra'', [(''easy'', \<lparr>s_correct = 0, s_total = 4\<rparr>),
                        (''medium'', \<lparr>s_correct = 0, s_total = 0\<rparr>),
                        (''hard'', \<lparr>s_correct = 0, s_total = 0\<rparr>)]),
         (''Physics'', [(''easy'', \<lparr>s_correct = 3, s_total = 3\<rparr>),
                        (''medium'', \<lparr>s_correct = 3, s_total = 3\<rparr>),
                        (''hard'', \<lparr>s_correct = 0, s_total = 0\<rparr>)]),
         (''Geometry'', [(''easy'', \<lparr>s_correct = 1, s_total = 2\<rparr>),
                         (''medium'', \<lparr>s_correct = 0, s_total = 3\<rparr>),
                         (''hard'', \<lparr>s_correct = 0, s_total = 0\<rparr>)])],
      cognitive_levels = [(''application'', \<lparr>s_correct = 7, s_total = 15\<rparr>)],
      learning_pace = 12, preferred_difficulty = ''easy'', last_activity = 0,
      total_questions = 15, correct_answers = 7,
      recent_times = Some [5, 5, 5, 5, 5, 5, 5, 5, 5, 5, 5, 5, 5, 5, 5],
      recent_attempts = None\<rparr>"

section \<open>Double-precision values\<close>

lemma fl64_eval:
  assumes "2 powi e \<le> \<bar>x\<bar>" "\<bar>x\<bar> < 2 powi (e + 1)" "- 1022 \<le> e"
  shows "fl64 x = of_int (round_half_even (x / 2 powi (e - 52))) * 2 powi (e - 52)"
proof -
  have p: "(2::real) powr (real_of_int k) = 2 powi k" for k :: int
    by (simp add: powr_real_of_int')
  have "(0::real) < 2 powi e" by simp
  with assms(1) have pos: "0 < \<bar>x\<bar>" by linarith
  then have nz: "x \<noteq> 0" by simp
  have lo: "(2::real) powr real_of_int e \<le> \<bar>x\<bar>"
    unfolding p by (rule assms(1))
  have "\<bar>x\<bar> < 2 powr real_of_int (e + 1)"
    unfolding p by (rule assms(2))
  then have hi: "\<bar>x\<bar> < 2 powr (real_of_int e + 1)"
    by simp
  have "\<lfloor>log 2 \<bar>x\<bar>\<rfloor> = e"
    using floor_log_eq_powr_iff[of "\<bar>x\<bar>" 2 e] pos lo hi by simp
  with assms(3) nz show ?thesis
    by (simp add: fl64_def Let_def max_def)
qed

lemma fl64_0 [simp]: "fl64 0 = 0"
  by (simp add: fl64_def)

lemma fl64_1 [simp]: "fl64 1 = 1"
  using fl64_eval[of 0 1] by (simp add: round_half_even_def power_int_minus_divide)

lemma fl64_1_10: "fl64 (1 / 10) = 3602879701896397 / 36028797018963968"
  using fl64_eval[of "- 4" "1 / 10"] by (simp add: round_half_even_def power_int_minus_divide)

lemma fl64_3_10: "fl64 (3 / 10) = 5404319552844595 / 18014398509481984"
  using fl64_eval[of "- 2" "3 / 10"] by (simp add: round_half_even_def power_int_minus_divide)

lemma fl64_6_10: "fl64 (6 / 10) = 5404319552844595 / 9007199254740992"
  using fl64_eval[of "- 1" "6 / 10"] by (simp add: round_half_even_def power_int_minus_divide)

lemma fl64_3_5: "fl64 (3 / 5) = 5404319552844595 / 9007199254740992"
  using fl64_6_10 by simp

lemma fl64_7_10: "fl64 (7 / 10) = 3152519739159347 / 4503599627370496"
  using fl64_eval[of "- 1" "7 / 10"] by (simp add: round_half_even_def power_int_minus_divide)

section \<open>The performance ledger: invariants of \<open>record_attempt\<close>\<close>

lemma wf_new_profile: "wf_profile (new_profile uid now)"
  by (simp add: wf_profile_def wf_tp_def new_profile_def)

lemma map_of_keys: "map_of al k = Some v \<Longrightarrow> k \<in> set (map fst al)"
  by (induction al) (auto split: if_splits)

lemma map_of_None_keys: "map_of al k = None \<longleftrightarrow> k \<notin> set (map fst al)"
  by (simp add: map_of_eq_None_iff)

lemma update_absent: "map_of al k = None \<Longrightarrow> AList.update k v al = al @ [(k, v)]"
  by (induction al) (auto split: if_splits)

lemma set_snd_update:
  "set (map snd (AList.update k v al)) \<subseteq> insert v (set (map snd al))"
  by (induction al) auto

lemma scored_items_valid:
  assumes "\<forall>x \<in> set (topic_performance p). map fst (snd x) = difficulties"
  shows "find (\<lambda>(d, s). d \<notin> set difficulties) (scored_items p) = None"
proof -
  have "\<forall>x \<in> set (concat (map snd (topic_performance p))). fst x \<in> set difficulties"
  proof
    fix x assume "x \<in> set (concat (map snd (topic_performance p)))"
    then obtain y where y: "y \<in> set (topic_performance p)" and x: "x \<in> set (snd y)"
      by auto
    from assms y have "map fst (snd y) = difficulties" by blast
    with x show "fst x \<in> set difficulties"
      by (metis image_eqI set_map)
  qed
  moreover have "set (scored_items p) \<subseteq> set (concat (map snd (topic_performance p)))"
    unfolding scored_items_def by (rule filter_is_subset)
  ultimately have "\<forall>x \<in> set (scored_items p). fst x \<in> set difficulties"
    by blast
  then show ?thesis
    unfolding find_None_iff by (metis (mono_tags, lifting) case_prod_beta)
qed

lemma update_preferred_difficulty_ok:
  assumes "wf_profile p"
  shows "\<exists>d. update_preferred_difficulty p = Inr (p\<lparr>preferred_difficulty := d\<rparr>)"
proof -
  have "find (\<lambda>(d, s). d \<notin> set difficulties) (scored_items p) = None"
    using scored_items_valid[of p] assms by (simp add: wf_profile_def wf_tp_def)
  then show ?thesis
    unfolding update_preferred_difficulty_def Let_def by (simp del: set_map) blast
qed

lemma upd_fields:
  assumes "update_preferred_difficulty p = Inr q"
  shows "\<exists>d. q = p\<lparr>preferred_difficulty := d\<rparr>"
  using assms
  by (auto simp: update_preferred_difficulty_def Let_def split: option.splits)

lemma utp_cases:
  obtains (KeyErr) k where
      "update_topic_performance p a =
         (Inl (KeyError k), p\<lparr>topic_performance := ensure_topic (topic a) (topic_performance p)\<rparr>)"
  | (Ok) tp where "update_topic_performance p a = (Inr (), p\<lparr>topic_performance := tp\<rparr>)"
  unfolding update_topic_performance_def Let_def
  by (cases "map_of (ensure_topic (topic a) (topic_performance p)) (topic a)";
      cases "map_of (the (map_of (ensure_topic (topic a) (topic_performance p)) (topic a))) (difficulty a)")
     auto

lemma rap_cases:
  obtains (KeyErr) e tp where
      "record_attempt_profile now p a = (Inl e, (update_basic_stats now p a)\<lparr>topic_performance := tp\<rparr>)"
  | (PrefErr) e tp cl where
      "record_attempt_profile now p a =
         (Inl e, update_learning_pace ((update_basic_stats now p a)\<lparr>topic_performance := tp, cognitive_levels := cl\<rparr>) a)"
  | (Ok) tp cl d where
      "record_attempt_profile now p a =
         (Inr (), (update_learning_pace ((update_basic_stats now p a)\<lparr>topic_performance := tp, cognitive_levels := cl\<rparr>) a)
                    \<lparr>preferred_difficulty := d\<rparr>)"
proof (cases rule: utp_cases[of "update_basic_stats now p a" a])
  case (KeyErr k)
  then show ?thesis
    using that(1) by (simp add: record_attempt_profile_def Let_def)
next
  case (Ok tp)
  define p4 where "p4 = update_cognitive_level ((update_basic_stats now p a)\<lparr>topic_performance := tp\<rparr>) a"
  obtain cl where p4: "p4 = (update_basic_stats now p a)\<lparr>topic_performance := tp, cognitive_levels := cl\<rparr>"
    unfolding p4_def update_cognitive_level_def Let_def by simp
  show ?thesis
  proof (cases "update_preferred_difficulty (update_learning_pace p4 a)")
    case (Inl e)
    with Ok show ?thesis
      using that(2) by (simp add: record_attempt_profile_def Let_def p4_def[symmetric] p4)
  next
    case (Inr q)
    then obtain d where "q = (update_learning_pace p4 a)\<lparr>preferred_difficulty := d\<rparr>"
      using upd_fields by blast
    with Ok Inr show ?thesis
      using that(3) by (simp add: record_attempt_profile_def Let_def p4_def[symmetric] p4)
  qed
qed

lemma rap_total_questions:
  "total_questions (snd (record_attempt_profile now p a)) = total_questions p + 1"
  by (cases rule: rap_cases[of now p a])
     (simp_all add: update_basic_stats_def update_learning_pace_def Let_def)

lemma rap_correct_answers:
  "correct_answers (snd (record_attempt_profile now p a)) =
     (if correct a then correct_answers p + 1 else correct_answers p)"
  by (cases rule: rap_cases[of now p a])
     (simp_all add: update_basic_stats_def update_learning_pace_def Let_def)

lemma rap_recent_attempts:
  "recent_attempts (snd (record_attempt_profile now p a)) = recent_attempts p"
  by (cases rule: rap_cases[of now p a])
     (simp_all add: update_basic_stats_def update_learning_pace_def Let_def)

lemma sum_update:
  fixes f :: "'v \<Rightarrow> int"
  assumes "map_of al k = Some old"
  shows "sum_list (map (\<lambda>(k, v). f v) (AList.update k v al)) =
         sum_list (map (\<lambda>(k, v). f v) al) - f old + f v"
  using assms by (induction al) (auto split: if_splits)

lemma sum_append_new:
  fixes f :: "'v \<Rightarrow> int"
  assumes "map_of al k = None"
  shows "sum_list (map (\<lambda>(k, v). f v) (AList.update k v al)) =
         sum_list (map (\<lambda>(k, v). f v) al) + f v"
  using assms by (simp add: update_absent)

lemma keys_update_present:
  assumes "map_of al k = Some old"
  shows "map fst (AList.update k v al) = map fst al"
  using map_of_keys[OF assms] by (simp add: update_keys del: set_map)

lemma values_update: "x \<in> set (AList.update k v al) \<Longrightarrow> x = (k, v) \<or> x \<in> set al"
  by (induction al) (auto split: if_splits)

lemma map_of_difficulties:
  assumes "map fst ts = difficulties"
  shows "map_of ts d = None \<longleftrightarrow> d \<notin> set difficulties"
  using assms by (metis map_of_eq_None_iff set_map)

lemma total_attempts_new [simp]: "total_attempts new_topic_stats = 0"
  by (simp add: total_attempts_def new_topic_stats_def zero_stats_def)

lemma total_attempts_tally:
  assumes "map_of ts d = Some st"
  shows "total_attempts (AList.update d (tally c st) ts) = total_attempts ts + 1"
  unfolding total_attempts_def using sum_update[OF assms, of s_total "tally c st"]
  by (simp add: tally_def)

lemma wf_tp_update:
  assumes "wf_tp tp" "map fst ts = difficulties"
  shows "wf_tp (AList.update t ts tp)"
proof -
  have "distinct (map fst (AList.update t ts tp))"
    using assms(1) by (simp add: wf_tp_def distinct_update)
  moreover have "\<forall>x \<in> set (AList.update t ts tp). map fst (snd x) = difficulties"
  proof
    fix x assume "x \<in> set (AList.update t ts tp)"
    then have "x = (t, ts) \<or> x \<in> set tp" by (rule values_update)
    with assms show "map fst (snd x) = difficulties"
      unfolding wf_tp_def by fastforce
  qed
  ultimately show ?thesis by (simp add: wf_tp_def)
qed

lemma wf_tp_ensure: "wf_tp tp \<Longrightarrow> wf_tp (ensure_topic t tp)"
  unfolding ensure_topic_def
  by (simp add: wf_tp_update new_topic_stats_def difficulties_def)

lemma tp_total_ensure: "tp_total (ensure_topic t tp) = tp_total tp"
  unfolding ensure_topic_def tp_total_def
  using sum_append_new[of tp t total_attempts new_topic_stats] by simp

lemma ensure_topic_lookup:
  assumes "wf_tp tp"
  obtains ts where "map_of (ensure_topic t tp) t = Some ts" "map fst ts = difficulties"
proof (cases "map_of tp t")
  case None
  then have "map_of (ensure_topic t tp) t = Some new_topic_stats"
    by (simp add: ensure_topic_def update_conv')
  then show ?thesis
    using that by (simp add: new_topic_stats_def difficulties_def)
next
  case (Some ts)
  then have "(t, ts) \<in> set tp"
    by (rule map_of_SomeD)
  with assms have "map fst ts = difficulties"
    by (auto simp: wf_tp_def)
  with Some show ?thesis
    using that by (simp add: ensure_topic_def)
qed

lemma utp_invalid:
  assumes "wf_tp (topic_performance p)" "difficulty a \<notin> set difficulties"
  shows "update_topic_performance p a =
           (Inl (KeyError (difficulty a)), p\<lparr>topic_performance := ensure_topic (topic a) (topic_performance p)\<rparr>)"
proof -
  obtain ts where ts: "map_of (ensure_topic (topic a) (topic_performance p)) (topic a) = Some ts"
      "map fst ts = difficulties"
    using ensure_topic_lookup[OF assms(1)] by blast
  then have "map_of ts (difficulty a) = None"
    using assms(2) map_of_difficulties by blast
  with ts show ?thesis
    by (simp add: update_topic_performance_def Let_def)
qed

lemma utp_valid:
  assumes "wf_tp (topic_performance p)" "difficulty a \<in> set difficulties"
  obtains tp where "update_topic_performance p a = (Inr (), p\<lparr>topic_performance := tp\<rparr>)"
    "wf_tp tp" "tp_total tp = tp_total (topic_performance p) + 1"
proof -
  let ?tp1 = "ensure_topic (topic a) (topic_performance p)"
  obtain ts where ts: "map_of ?tp1 (topic a) = Some ts" "map fst ts = difficulties"
    using ensure_topic_lookup[OF assms(1)] by blast
  then obtain st where st: "map_of ts (difficulty a) = Some st"
    using assms(2) map_of_difficulties by fastforce
  let ?ts' = "AList.update (difficulty a) (tally (correct a) st) ts"
  let ?tp2 = "AList.update (topic a) ?ts' ?tp1"
  have eq: "update_topic_performance p a = (Inr (), p\<lparr>topic_performance := ?tp2\<rparr>)"
    using ts st by (simp add: update_topic_performance_def Let_def)
  have keys: "map fst ?ts' = difficulties"
    using keys_update_present[OF st] ts(2) by simp
  have wf: "wf_tp ?tp2"
    using wf_tp_update[OF wf_tp_ensure[OF assms(1)] keys] .
  have "tp_total ?tp2 = tp_total ?tp1 - total_attempts ts + total_attempts ?ts'"
    unfolding tp_total_def using sum_update[OF ts(1), of total_attempts ?ts'] .
  then have "tp_total ?tp2 = tp_total (topic_performance p) + 1"
    using total_attempts_tally[OF st] by (simp add: tp_total_ensure)
  with eq wf show ?thesis using that by blast
qed

lemma last_n_short: "length xs \<le> n \<Longrightarrow> last_n n xs = xs"
  by (simp add: last_n_def)

lemma length_last_n: "length (last_n n xs) \<le> n"
  by (simp add: last_n_def)

lemma last_n_append: "last_n n (last_n n xs @ ys) = last_n n (xs @ ys)"
proof (cases "length xs \<le> n")
  case True
  then show ?thesis by (simp add: last_n_short)
next
  case False
  then have "length xs + length ys - (length xs - n + n) + (length xs - n) = length xs + length ys - n"
    by simp
  then show ?thesis using False by (simp add: last_n_def)
qed

lemma ulp_times: "times_of (update_learning_pace p a) = last_n 20 (times_of p @ [time_taken a])"
  by (simp add: update_learning_pace_def times_of_def Let_def last_n_short)

lemma ulp_pace: "learning_pace (update_learning_pace p a) = pace_of (times_of (update_learning_pace p a))"
  by (simp add: update_learning_pace_def times_of_def Let_def pace_of_def)

lemma ulp_recent_times: "recent_times (update_learning_pace p a) \<noteq> None"
  by (simp add: update_learning_pace_def Let_def)

lemma ucl_keys: "distinct (map fst (cognitive_levels p)) \<Longrightarrow>
    distinct (map fst (cognitive_levels (update_cognitive_level p a)))"
  by (simp add: update_cognitive_level_def Let_def distinct_update split: option.splits)

lemma ucl_other:
  "topic_performance (update_cognitive_level p a) = topic_performance p"
  "recent_times (update_cognitive_level p a) = recent_times p"
  "learning_pace (update_cognitive_level p a) = learning_pace p"
  "total_questions (update_cognitive_level p a) = total_questions p"
  "correct_answers (update_cognitive_level p a) = correct_answers p"
  "recent_attempts (update_cognitive_level p a) = recent_attempts p"
  by (simp_all add: update_cognitive_level_def Let_def)

lemma ucl_lookup:
  "map_of (cognitive_levels (update_cognitive_level p a)) (cognitive_level a) =
     Some (tally (correct a) (case map_of (cognitive_levels p) (cognitive_level a) of
                                 None \<Rightarrow> zero_stats | Some cs \<Rightarrow> cs))"
  by (simp add: update_cognitive_level_def Let_def update_conv' split: option.splits)

lemma ucl_lookup_other:
  "l \<noteq> cognitive_level a \<Longrightarrow>
   map_of (cognitive_levels (update_cognitive_level p a)) l = map_of (cognitive_levels p) l"
  by (simp add: update_cognitive_level_def Let_def update_conv' split: option.splits)

lemma rap_invalid:
  assumes "wf_profile p" "\<not> valid_difficulty a"
  shows "record_attempt_profile now p a =
           (Inl (KeyError (difficulty a)),
            (update_basic_stats now p a)\<lparr>topic_performance := ensure_topic (topic a) (topic_performance p)\<rparr>)"
proof -
  have "wf_tp (topic_performance (update_basic_stats now p a))"
    using assms(1) by (simp add: wf_profile_def update_basic_stats_def)
  from utp_invalid[OF this] assms(2) show ?thesis
    by (simp add: record_attempt_profile_def Let_def valid_difficulty_def update_basic_stats_def)
qed

lemma rap_valid:
  assumes "wf_profile p" "valid_difficulty a"
  obtains tp d where
    "record_attempt_profile now p a =
       (Inr (), (update_learning_pace
                   (update_cognitive_level ((update_basic_stats now p a)\<lparr>topic_performance := tp\<rparr>) a) a)
                 \<lparr>preferred_difficulty := d\<rparr>)"
    "wf_tp tp" "tp_total tp = tp_total (topic_performance p) + 1"
proof -
  let ?p1 = "update_basic_stats now p a"
  have wf1: "wf_tp (topic_performance ?p1)"
    using assms(1) by (simp add: wf_profile_def update_basic_stats_def)
  have v: "difficulty a \<in> set difficulties"
    using assms(2) by (simp add: valid_difficulty_def)
  obtain tp where tp: "update_topic_performance ?p1 a = (Inr (), ?p1\<lparr>topic_performance := tp\<rparr>)"
      "wf_tp tp" "tp_total tp = tp_total (topic_performance ?p1) + 1"
    using utp_valid[OF wf1 v] by blast
  let ?p5 = "update_learning_pace (update_cognitive_level (?p1\<lparr>topic_performance := tp\<rparr>) a) a"
  have "wf_profile ?p5"
    using tp(2) assms(1) ucl_keys[of "?p1\<lparr>topic_performance := tp\<rparr>" a]
    by (simp add: wf_profile_def update_learning_pace_def Let_def ucl_other update_basic_stats_def)
  then obtain d where "update_preferred_difficulty ?p5 = Inr (?p5\<lparr>preferred_difficulty := d\<rparr>)"
    using update_preferred_difficulty_ok by blast
  with tp(1) have "record_attempt_profile now p a = (Inr (), ?p5\<lparr>preferred_difficulty := d\<rparr>)"
    by (simp add: record_attempt_profile_def Let_def)
  moreover have "tp_total tp = tp_total (topic_performance p) + 1"
    using tp(3) by (simp add: update_basic_stats_def)
  ultimately show ?thesis using that tp(2) by blast
qed

lemma rap_wf:
  assumes "wf_profile p"
  shows "wf_profile (snd (record_attempt_profile now p a))"
proof (cases "valid_difficulty a")
  case True
  from rap_valid[OF assms True, of now] obtain tp d where
    r: "record_attempt_profile now p a =
       (Inr (), (update_learning_pace
                   (update_cognitive_level ((update_basic_stats now p a)\<lparr>topic_performance := tp\<rparr>) a) a)
                 \<lparr>preferred_difficulty := d\<rparr>)" and wf: "wf_tp tp"
    by blast
  show ?thesis
    using wf assms ucl_keys[of "(update_basic_stats now p a)\<lparr>topic_performance := tp\<rparr>" a]
    unfolding r
    by (simp add: wf_profile_def update_learning_pace_def Let_def ucl_other update_basic_stats_def)
next
  case False
  show ?thesis
    using assms wf_tp_ensure[of "topic_performance p" "topic a"]
    unfolding rap_invalid[OF assms False]
    by (simp add: wf_profile_def update_basic_stats_def)
qed

lemma rap_result:
  assumes "wf_profile p"
  shows "fst (record_attempt_profile now p a) =
           (if valid_difficulty a then Inr () else Inl (KeyError (difficulty a)))"
proof (cases "valid_difficulty a")
  case True
  from rap_valid[OF assms True, of now] show ?thesis using True by (metis fst_conv)
next
  case False
  then show ?thesis by (simp add: rap_invalid[OF assms False])
qed

lemma rap_bucket_total:
  assumes "wf_profile p"
  shows "bucket_total (snd (record_attempt_profile now p a)) =
           bucket_total p + (if valid_difficulty a then 1 else 0)"
proof (cases "valid_difficulty a")
  case True
  from rap_valid[OF assms True, of now] obtain tp d where
    r: "record_attempt_profile now p a =
       (Inr (), (update_learning_pace
                   (update_cognitive_level ((update_basic_stats now p a)\<lparr>topic_performance := tp\<rparr>) a) a)
                 \<lparr>preferred_difficulty := d\<rparr>)" and t: "tp_total tp = tp_total (topic_performance p) + 1"
    by blast
  show ?thesis
    using t True unfolding r
    by (simp add: bucket_total_def update_learning_pace_def Let_def ucl_other)
next
  case False
  then show ?thesis
    by (simp add: rap_invalid[OF assms False] bucket_total_def tp_total_ensure)
qed

lemma rap_times:
  assumes "wf_profile p"
  shows "times_of (snd (record_attempt_profile now p a)) =
           (if valid_difficulty a then last_n 20 (times_of p @ [time_taken a]) else times_of p)"
proof (cases "valid_difficulty a")
  case True
  from rap_valid[OF assms True, of now] obtain tp d where
    r: "record_attempt_profile now p a =
       (Inr (), (update_learning_pace
                   (update_cognitive_level ((update_basic_stats now p a)\<lparr>topic_performance := tp\<rparr>) a) a)
                 \<lparr>preferred_difficulty := d\<rparr>)"
    by blast
  have "times_of ((update_learning_pace q a)\<lparr>preferred_difficulty := d\<rparr>) = times_of (update_learning_pace q a)" for q
    by (simp add: times_of_def)
  then show ?thesis
    using True unfolding r
    by (simp add: ulp_times) (simp add: times_of_def ucl_other update_basic_stats_def)
next
  case False
  then show ?thesis
    by (simp add: rap_invalid[OF assms False] times_of_def update_basic_stats_def)
qed

lemma rap_pace:
  assumes "wf_profile p" "learning_pace p = pace_of (times_of p)"
  shows "learning_pace (snd (record_attempt_profile now p a)) =
           pace_of (times_of (snd (record_attempt_profile now p a)))"
proof (cases "valid_difficulty a")
  case True
  from rap_valid[OF assms(1) True, of now] obtain tp d where
    r: "record_attempt_profile now p a =
       (Inr (), (update_learning_pace
                   (update_cognitive_level ((update_basic_stats now p a)\<lparr>topic_performance := tp\<rparr>) a) a)
                 \<lparr>preferred_difficulty := d\<rparr>)"
    by blast
  have "times_of (q\<lparr>preferred_difficulty := d\<rparr>) = times_of q" for q
    by (simp add: times_of_def)
  then show ?thesis
    unfolding r using ulp_pace by simp
next
  case False
  then show ?thesis
    using assms(2)
    by (simp add: rap_invalid[OF assms(1) False] times_of_def update_basic_stats_def)
qed

lemma record_attempt_eq:
  "record_attempt now studs uid a =
     (fst (record_attempt_profile now (current_profile now studs uid) a),
      studs(uid \<mapsto> snd (record_attempt_profile now (current_profile now studs uid) a)))"
  by (simp add: record_attempt_def current_profile_def Let_def split: prod.splits)

lemma current_profile_upd [simp]: "current_profile now (studs(uid \<mapsto> p)) uid = p"
  by (simp add: current_profile_def)

lemma record_all_feed_some:
  "record_all now (studs(uid \<mapsto> p)) uid as uid = Some (feed now p as)"
  by (induction as arbitrary: studs p) (simp_all add: record_attempt_eq)

lemma record_all_feed:
  "as \<noteq> [] \<Longrightarrow> record_all now studs uid as uid = Some (feed now (current_profile now studs uid) as)"
  by (cases as) (simp_all add: record_attempt_eq record_all_feed_some)

lemma record_all_other:
  "v \<noteq> uid \<Longrightarrow> record_all now studs uid as v = studs v"
  by (induction as arbitrary: studs) (simp_all add: record_attempt_eq)

lemma feed_wf: "wf_profile p \<Longrightarrow> wf_profile (feed now p as)"
  by (induction as arbitrary: p) (simp_all add: rap_wf)

lemma feed_total_questions:
  "total_questions (feed now p as) = total_questions p + int (length as)"
  by (induction as arbitrary: p) (simp_all add: rap_total_questions)

lemma feed_correct_answers:
  "correct_answers (feed now p as) = correct_answers p + int (length (filter correct as))"
  by (induction as arbitrary: p) (simp_all add: rap_correct_answers)

lemma feed_recent_attempts: "recent_attempts (feed now p as) = recent_attempts p"
  by (induction as arbitrary: p) (simp_all add: rap_recent_attempts)

lemma feed_bucket_total:
  "wf_profile p \<Longrightarrow>
   bucket_total (feed now p as) = bucket_total p + int (length (filter valid_difficulty as))"
  by (induction as arbitrary: p) (simp_all add: rap_wf rap_bucket_total)

lemma feed_times:
  "wf_profile p \<Longrightarrow> length (times_of p) \<le> 20 \<Longrightarrow>
   times_of (feed now p as) = last_n 20 (times_of p @ map time_taken (filter valid_difficulty as))"
proof (induction as arbitrary: p)
  case Nil
  then show ?case by (simp add: last_n_short)
next
  case (Cons a as)
  let ?q = "snd (record_attempt_profile now p a)"
  have wf: "wf_profile ?q" using Cons.prems(1) by (rule rap_wf)
  have len: "length (times_of ?q) \<le> 20"
    using Cons.prems by (simp add: rap_times length_last_n)
  show ?case
    using Cons.IH[OF wf len] Cons.prems(1)
    by (simp add: rap_times last_n_append)
qed

lemma feed_pace:
  "wf_profile p \<Longrightarrow> learning_pace p = pace_of (times_of p) \<Longrightarrow>
   learning_pace (feed now p as) = pace_of (times_of (feed now p as))"
  by (induction as arbitrary: p) (simp_all add: rap_wf rap_pace)

lemma new_profile_facts:
  "total_questions (new_profile uid now) = 0"
  "correct_answers (new_profile uid now) = 0"
  "bucket_total (new_profile uid now) = 0"
  "times_of (new_profile uid now) = []"
  "learning_pace (new_profile uid now) = pace_of (times_of (new_profile uid now))"
  "recent_attempts (new_profile uid now) = None"
  by (simp_all add: new_profile_def bucket_total_def tp_total_def times_of_def pace_of_def mean_def)

lemmas ledger_defs =
  record_attempt_def record_attempt_profile_def update_basic_stats_def
  update_topic_performance_def ensure_topic_def update_cognitive_level_def
  update_learning_pace_def update_preferred_difficulty_def scored_items_def avg_score_def
  new_profile_def new_topic_stats_def zero_stats_def tally_def difficulties_def mean_def
  last_n_def Let_def fl64_3_5 fl64_7_10

lemma rap_recent_times:
  assumes "wf_profile p"
  shows "recent_times (snd (record_attempt_profile now p a)) =
           (if valid_difficulty a then Some (last_n 20 (times_of p @ [time_taken a]))
            else recent_times p)"
proof (cases "valid_difficulty a")
  case True
  from rap_valid[OF assms True, of now] obtain tp d where
    r: "record_attempt_profile now p a =
       (Inr (), (update_learning_pace
                   (update_cognitive_level ((update_basic_stats now p a)\<lparr>topic_performance := tp\<rparr>) a) a)
                 \<lparr>preferred_difficulty := d\<rparr>)"
    by blast
  show ?thesis
    using True unfolding r
    by (simp add: update_learning_pace_def Let_def last_n_short times_of_def ucl_other
        update_basic_stats_def)
next
  case False
  then show ?thesis
    by (simp add: rap_invalid[OF assms False] update_basic_stats_def)
qed

lemma feed_recent_times_none:
  "wf_profile p \<Longrightarrow>
   recent_times (feed now p as) = None \<longleftrightarrow> recent_times p = None \<and> filter valid_difficulty as = []"
  by (induction as arbitrary: p) (auto simp: rap_wf rap_recent_times)

section \<open>Properties of the performance ledger\<close>

text \<open>
  Claim C6, as stated, fails: \<open>record_attempt\<close> increments \<open>total_questions\<close> before it
  indexes the topic's buckets by \<open>attempt.difficulty\<close>. One call whose difficulty is
  "expert" raises KeyError after the increment: \<open>total_questions\<close> is 1 and every bucket
  total is 0.
\<close>

theorem ledger_counters_counterexample:
  "map_option total_questions
     (record_all 0 Map.empty ''u1''
        [\<lparr>question_id = ''q1'', topic = ''Math'', difficulty = ''expert'', cognitive_level = ''recall'',
          correct = True, time_taken = 5, timestamp = 0, confidence = 1 / 2\<rparr>] ''u1'') = Some 1
   \<and> map_option topic_performance
     (record_all 0 Map.empty ''u1''
        [\<lparr>question_id = ''q1'', topic = ''Math'', difficulty = ''expert'', cognitive_level = ''recall'',
          correct = True, time_taken = 5, timestamp = 0, confidence = 1 / 2\<rparr>] ''u1'')
     = Some [(''Math'', [(''easy'', \<lparr>s_correct = 0, s_total = 0\<rparr>),
                         (''medium'', \<lparr>s_correct = 0, s_total = 0\<rparr>),
                         (''hard'', \<lparr>s_correct = 0, s_total = 0\<rparr>)])]"
  by (simp add: ledger_defs)

text \<open>
  Claim C6, amended. After any non-empty sequence of \<open>record_attempt\<close> calls for a user
  starting from no profile, \<open>total_questions\<close> is the number of calls, \<open>correct_answers\<close>
  is the number of calls whose attempt was correct (hence at most \<open>total_questions\<close>),
  and, when every attempt's difficulty is one of "easy", "medium", "hard",
  \<open>total_questions\<close> is the sum over all topics and difficulty buckets of the bucket totals.
\<close>

theorem ledger_counters:
  assumes "studs uid = None" and "as \<noteq> []"
  shows "\<exists>p. record_all now studs uid as uid = Some p
           \<and> total_questions p = int (length as)
           \<and> correct_answers p = int (length (filter correct as))
           \<and> correct_answers p \<le> total_questions p
           \<and> ((\<forall>a \<in> set as. difficulty a \<in> {''easy'', ''medium'', ''hard''}) \<longrightarrow>
                total_questions p =
                  sum_list (map (\<lambda>(t, ts). sum_list (map (\<lambda>(d, s). s_total s) ts))
                                (topic_performance p)))"
proof -
  let ?init = "new_profile uid now"
  let ?fin = "feed now ?init as"
  have cur: "current_profile now studs uid = ?init"
    using assms(1) by (simp add: current_profile_def)
  have 1: "record_all now studs uid as uid = Some ?fin"
    unfolding cur[symmetric] by (rule record_all_feed[OF assms(2)])
  have 2: "total_questions ?fin = int (length as)"
    by (simp add: feed_total_questions new_profile_facts)
  have 3: "correct_answers ?fin = int (length (filter correct as))"
    by (simp add: feed_correct_answers new_profile_facts)
  have 4: "correct_answers ?fin \<le> total_questions ?fin"
    unfolding 2 3 by simp
  have 5: "bucket_total ?fin = int (length (filter valid_difficulty as))"
    by (simp add: feed_bucket_total wf_new_profile new_profile_facts)
  have 6: "total_questions ?fin =
             sum_list (map (\<lambda>(t, ts). sum_list (map (\<lambda>(d, s). s_total s) ts)) (topic_performance ?fin))"
    if "\<forall>a \<in> set as. difficulty a \<in> {''easy'', ''medium'', ''hard''}"
  proof -
    from that have "filter valid_difficulty as = as"
      by (simp add: valid_difficulty_def difficulties_def)
    with 5 2 have "total_questions ?fin = bucket_total ?fin" by simp
    then show ?thesis
      by (simp add: bucket_total_def tp_total_def total_attempts_def)
  qed
  from 1 2 3 4 6 show ?thesis by blast
qed

theorem ledger_counters_witness:
  "\<exists>p. record_all 0 Map.empty ''u1''
          [\<lparr>question_id = ''q1'', topic = ''Math'', difficulty = ''easy'', cognitive_level = ''recall'',
            correct = True, time_taken = 5, timestamp = 0, confidence = 1 / 2\<rparr>,
           \<lparr>question_id = ''q2'', topic = ''Science'', difficulty = ''hard'', cognitive_level = ''analysis'',
            correct = False, time_taken = 7, timestamp = 1, confidence = 1 / 2\<rparr>] ''u1'' = Some p
       \<and> total_questions p = 2 \<and> correct_answers p = 1
       \<and> sum_list (map (\<lambda>(t, ts). sum_list (map (\<lambda>(d, s). s_total s) ts)) (topic_performance p)) = 2"
  using ledger_counters [of Map.empty "''u1''"
          "[\<lparr>question_id = ''q1'', topic = ''Math'', difficulty = ''easy'', cognitive_level = ''recall'',
            correct = True, time_taken = 5, timestamp = 0, confidence = 1 / 2\<rparr>,
           \<lparr>question_id = ''q2'', topic = ''Science'', difficulty = ''hard'', cognitive_level = ''analysis'',
            correct = False, time_taken = 7, timestamp = 1, confidence = 1 / 2\<rparr>]" 0]
  by (simp del: record_all.simps) metis

text \<open>
  Claim C8, as stated, fails: a call whose difficulty is not one of the three buckets
  raises KeyError before \<open>_update_learning_pace\<close> runs. After one such call for a new user
  the profile has no \<open>recent_times\<close> at all, although the attempt took 5 seconds.
\<close>

theorem recent_times_counterexample:
  "fst (record_attempt 0 Map.empty ''u1''
        \<lparr>question_id = ''q1'', topic = ''Math'', difficulty = ''expert'', cognitive_level = ''recall'',
          correct = True, time_taken = 5, timestamp = 0, confidence = 1 / 2\<rparr>) = Inl (KeyError ''expert'')
   \<and> map_option recent_times (snd (record_attempt 0 Map.empty ''u1''
        \<lparr>question_id = ''q1'', topic = ''Math'', difficulty = ''expert'', cognitive_level = ''recall'',
          correct = True, time_taken = 5, timestamp = 0, confidence = 1 / 2\<rparr>) ''u1'') = Some None"
  by (simp add: ledger_defs)

text \<open>
  Claim C8, amended. After any non-empty sequence of \<open>record_attempt\<close> calls for a user
  starting from no profile, \<open>recent_times\<close> holds exactly the last (up to 20)
  \<open>time_taken\<close> values, in order of arrival, of the calls whose difficulty is one of
  "easy", "medium", "hard" (the calls that return normally); it is absent when there is no
  such call. It has at most 20 elements, and \<open>learning_pace\<close> is 60 divided by the mean of
  \<open>recent_times\<close> when that mean is positive, else 0. When every call has such a
  difficulty, \<open>recent_times\<close> is the last (up to 20) \<open>time_taken\<close> values of all calls.
\<close>

theorem recent_times_fifo:
  assumes "studs uid = None" and "as \<noteq> []"
  shows "\<exists>p. record_all now studs uid as uid = Some p
           \<and> recent_times p =
               (if filter (\<lambda>a. difficulty a \<in> {''easy'', ''medium'', ''hard''}) as = [] then None
                else Some (last_n 20 (map time_taken
                       (filter (\<lambda>a. difficulty a \<in> {''easy'', ''medium'', ''hard''}) as))))
           \<and> length (times_of p) \<le> 20
           \<and> learning_pace p =
               (if 0 < sum_list (times_of p) / real (length (times_of p))
                then 60 / (sum_list (times_of p) / real (length (times_of p))) else 0)
           \<and> ((\<forall>a \<in> set as. difficulty a \<in> {''easy'', ''medium'', ''hard''}) \<longrightarrow>
                recent_times p = Some (last_n 20 (map time_taken as)))"
proof -
  let ?init = "new_profile uid now"
  let ?fin = "feed now ?init as"
  let ?ok = "\<lambda>a. difficulty a \<in> {''easy'', ''medium'', ''hard''}"
  have ok: "valid_difficulty = ?ok"
    by (rule ext) (simp add: valid_difficulty_def difficulties_def)
  have cur: "current_profile now studs uid = ?init"
    using assms(1) by (simp add: current_profile_def)
  have 1: "record_all now studs uid as uid = Some ?fin"
    unfolding cur[symmetric] by (rule record_all_feed[OF assms(2)])
  have t: "times_of ?fin = last_n 20 (map time_taken (filter ?ok as))"
    using feed_times[OF wf_new_profile, of uid now now as] by (simp add: new_profile_facts ok)
  have n: "recent_times ?fin = None \<longleftrightarrow> filter ?ok as = []"
    using feed_recent_times_none[OF wf_new_profile, of now uid now as]
    by (simp add: new_profile_def ok)
  have 2: "recent_times ?fin =
             (if filter ?ok as = [] then None else Some (last_n 20 (map time_taken (filter ?ok as))))"
  proof (cases "filter ?ok as = []")
    case True
    with n show ?thesis by simp
  next
    case False
    with n obtain ts where "recent_times ?fin = Some ts" by auto
    with t False show ?thesis by (simp add: times_of_def)
  qed
  have 3: "length (times_of ?fin) \<le> 20"
    unfolding t by (rule length_last_n)
  have 4: "learning_pace ?fin = pace_of (times_of ?fin)"
    using feed_pace[OF wf_new_profile, of uid now now as] by (simp add: new_profile_facts)
  have 5: "recent_times ?fin = Some (last_n 20 (map time_taken as))" if "\<forall>a \<in> set as. ?ok a"
  proof -
    from that have "filter ?ok as = as" by simp
    with 2 assms(2) show ?thesis by simp
  qed
  from 1 2 3 4 5 show ?thesis
    unfolding pace_of_def mean_def by blast
qed

theorem recent_times_fifo_witness:
  "\<exists>p. record_all 0 Map.empty ''u1''
          (map (\<lambda>t. \<lparr>question_id = ''q'', topic = ''Math'', difficulty = ''easy'',
                      cognitive_level = ''recall'', correct = True, time_taken = t,
                      timestamp = 0, confidence = 1 / 2\<rparr>)
               [1, 2, 3, 4, 5, 6, 7, 8, 9, 10, 11, 12, 13, 14, 15, 16, 17, 18, 19, 20, 21]) ''u1'' = Some p
       \<and> recent_times p = Some [2, 3, 4, 5, 6, 7, 8, 9, 10, 11, 12, 13, 14, 15, 16, 17, 18, 19, 20, 21]"
  using recent_times_fifo [of Map.empty "''u1''"
          "map (\<lambda>t. \<lparr>question_id = ''q'', topic = ''Math'', difficulty = ''easy'',
                      cognitive_level = ''recall'', correct = True, time_taken = t,
                      timestamp = 0, confidence = 1 / 2\<rparr>)
               [1, 2, 3, 4, 5, 6, 7, 8, 9, 10, 11, 12, 13, 14, 15, 16, 17, 18, 19, 20, 21]" 0]
  by (simp add: last_n_def del: record_all.simps) metis

text \<open>
  Claim C10. For a user whose profile exists (it was made by \<open>record_attempt\<close> calls), a
  call whose difficulty is outside "easy", "medium", "hard" raises KeyError with that
  difficulty, and leaves the attempt partially applied: the counters and the activity
  time are updated and the topic is created if new, while the buckets, the cognitive
  levels, the recent times and the pace are untouched. A call with one of the three
  difficulties returns normally whatever the cognitive level is: a level not seen before
  gets a new bucket, counted from zero.
\<close>

theorem invalid_difficulty_key_error:
  assumes "studs0 uid = None" and "as \<noteq> []" and "studs = record_all now0 studs0 uid as"
  shows "\<exists>p. studs uid = Some p
           \<and> (difficulty a \<notin> {''easy'', ''medium'', ''hard''} \<longrightarrow>
                record_attempt now studs uid a =
                  (Inl (KeyError (difficulty a)),
                   studs(uid \<mapsto> p\<lparr>total_questions := total_questions p + 1,
                                   correct_answers := (if correct a then correct_answers p + 1
                                                       else correct_answers p),
                                   last_activity := now,
                                   topic_performance :=
                                     (if map_of (topic_performance p) (topic a) = None
                                      then topic_performance p @ [(topic a, new_topic_stats)]
                                      else topic_performance p)\<rparr>)))
           \<and> (difficulty a \<in> {''easy'', ''medium'', ''hard''} \<longrightarrow>
                (\<exists>p'. record_attempt now studs uid a = (Inr (), studs(uid \<mapsto> p'))
                   \<and> map_of (cognitive_levels p') (cognitive_level a) =
                       Some (tally (correct a)
                              (case map_of (cognitive_levels p) (cognitive_level a) of
                                 None \<Rightarrow> zero_stats | Some cs \<Rightarrow> cs))))"
proof -
  let ?init = "new_profile uid now0"
  let ?cur = "feed now0 ?init as"
  have cur0: "current_profile now0 studs0 uid = ?init"
    using assms(1) by (simp add: current_profile_def)
  have 1: "studs uid = Some ?cur"
    unfolding assms(3) cur0[symmetric] by (rule record_all_feed[OF assms(2)])
  then have cur: "current_profile now studs uid = ?cur"
    by (simp add: current_profile_def)
  have wf: "wf_profile ?cur"
    by (rule feed_wf[OF wf_new_profile])
  have ok: "valid_difficulty a \<longleftrightarrow> difficulty a \<in> {''easy'', ''medium'', ''hard''}"
    by (simp add: valid_difficulty_def difficulties_def)
  have 2: "record_attempt now studs uid a =
             (Inl (KeyError (difficulty a)),
              studs(uid \<mapsto> ?cur\<lparr>total_questions := total_questions ?cur + 1,
                              correct_answers := (if correct a then correct_answers ?cur + 1
                                                  else correct_answers ?cur),
                              last_activity := now,
                              topic_performance :=
                                (if map_of (topic_performance ?cur) (topic a) = None
                                 then topic_performance ?cur @ [(topic a, new_topic_stats)]
                                 else topic_performance ?cur)\<rparr>))"
    if "difficulty a \<notin> {''easy'', ''medium'', ''hard''}"
  proof -
    from that have "\<not> valid_difficulty a" by (simp add: ok)
    from rap_invalid[OF wf this, of now] show ?thesis
      by (simp add: record_attempt_eq cur update_basic_stats_def ensure_topic_def update_absent)
  qed
  have 3: "\<exists>p'. record_attempt now studs uid a = (Inr (), studs(uid \<mapsto> p'))
             \<and> map_of (cognitive_levels p') (cognitive_level a) =
                 Some (tally (correct a)
                        (case map_of (cognitive_levels ?cur) (cognitive_level a) of
                           None \<Rightarrow> zero_stats | Some cs \<Rightarrow> cs))"
    if "difficulty a \<in> {''easy'', ''medium'', ''hard''}"
  proof -
    from that have v: "valid_difficulty a" by (simp add: ok)
    from rap_valid[OF wf v, of now] obtain tp d where
      r: "record_attempt_profile now ?cur a =
         (Inr (), (update_learning_pace
                     (update_cognitive_level ((update_basic_stats now ?cur a)\<lparr>topic_performance := tp\<rparr>) a) a)
                   \<lparr>preferred_difficulty := d\<rparr>)"
      by blast
    have "map_of (cognitive_levels (snd (record_attempt_profile now ?cur a))) (cognitive_level a) =
            Some (tally (correct a)
                   (case map_of (cognitive_levels ?cur) (cognitive_level a) of
                      None \<Rightarrow> zero_stats | Some cs \<Rightarrow> cs))"
      unfolding r
      using ucl_lookup[of "(update_basic_stats now ?cur a)\<lparr>topic_performance := tp\<rparr>" a]
      by (simp add: update_learning_pace_def Let_def update_basic_stats_def)
    moreover have "fst (record_attempt_profile now ?cur a) = Inr ()"
      unfolding r by simp
    ultimately have "record_attempt now studs uid a =
                       (Inr (), studs(uid \<mapsto> snd (record_attempt_profile now ?cur a)))
        \<and> map_of (cognitive_levels (snd (record_attempt_profile now ?cur a))) (cognitive_level a) =
            Some (tally (correct a)
                   (case map_of (cognitive_levels ?cur) (cognitive_level a) of
                      None \<Rightarrow> zero_stats | Some cs \<Rightarrow> cs))"
      by (simp add: record_attempt_eq cur)
    then show ?thesis by blast
  qed
  from 1 2 3 show ?thesis by blast
qed

theorem invalid_difficulty_key_error_witness:
  "fst (record_attempt 1
         (record_all 0 Map.empty ''u1''
            [\<lparr>question_id = ''q1'', topic = ''Math'', difficulty = ''easy'', cognitive_level = ''recall'',
              correct = True, time_taken = 5, timestamp = 0, confidence = 1 / 2\<rparr>])
         ''u1''
         \<lparr>question_id = ''q2'', topic = ''Math'', difficulty = ''expert'', cognitive_level = ''recall'',
           correct = True, time_taken = 5, timestamp = 1, confidence = 1 / 2\<rparr>)
     = Inl (KeyError ''expert'')
   \<and> fst (record_attempt 1
         (record_all 0 Map.empty ''u1''
            [\<lparr>question_id = ''q1'', topic = ''Math'', difficulty = ''easy'', cognitive_level = ''recall'',
              correct = True, time_taken = 5, timestamp = 0, confidence = 1 / 2\<rparr>])
         ''u1''
         \<lparr>question_id = ''q3'', topic = ''Math'', difficulty = ''hard'', cognitive_level = ''synthesis'',
           correct = True, time_taken = 5, timestamp = 1, confidence = 1 / 2\<rparr>)
     = Inr ()"
  using invalid_difficulty_key_error [of Map.empty "''u1''"
      "[\<lparr>question_id = ''q1'', topic = ''Math'', difficulty = ''easy'', cognitive_level = ''recall'',
              correct = True, time_taken = 5, timestamp = 0, confidence = 1 / 2\<rparr>]"
      "record_all 0 Map.empty ''u1''
            [\<lparr>question_id = ''q1'', topic = ''Math'', difficulty = ''easy'', cognitive_level = ''recall'',
              correct = True, time_taken = 5, timestamp = 0, confidence = 1 / 2\<rparr>]" 0
      "\<lparr>question_id = ''q2'', topic = ''Math'', difficulty = ''expert'', cognitive_level = ''recall'',
           correct = True, time_taken = 5, timestamp = 1, confidence = 1 / 2\<rparr>" 1]
    invalid_difficulty_key_error [of Map.empty "''u1''"
      "[\<lparr>question_id = ''q1'', topic = ''Math'', difficulty = ''easy'', cognitive_level = ''recall'',
              correct = True, time_taken = 5, timestamp = 0, confidence = 1 / 2\<rparr>]"
      "record_all 0 Map.empty ''u1''
            [\<lparr>question_id = ''q1'', topic = ''Math'', difficulty = ''easy'', cognitive_level = ''recall'',
              correct = True, time_taken = 5, timestamp = 0, confidence = 1 / 2\<rparr>]" 0
      "\<lparr>question_id = ''q3'', topic = ''Math'', difficulty = ''hard'', cognitive_level = ''synthesis'',
           correct = True, time_taken = 5, timestamp = 1, confidence = 1 / 2\<rparr>" 1]
  by (simp del: record_all.simps) (metis fst_conv)

section \<open>Properties of the session policy and the strength analysis\<close>

lemma recent_attempts_never_set:
  assumes "studs0 uid = None"
  shows "record_all now studs0 uid as uid = None
         \<or> (\<exists>p. record_all now studs0 uid as uid = Some p \<and> recent_attempts p = None)"
proof (cases "as = []")
  case True
  with assms show ?thesis by simp
next
  case False
  have "current_profile now studs0 uid = new_profile uid now"
    using assms by (simp add: current_profile_def)
  with record_all_feed[OF False, of now studs0 uid] show ?thesis
    by (simp add: feed_recent_attempts new_profile_facts)
qed

lemma generate_adaptive_questions_long_term:
  assumes "studs0 uid = None"
  shows "recommended_difficulty (generate_adaptive_questions (record_all now studs0 uid as) uid tpc n) =
         get_recommended_difficulty (record_all now studs0 uid as) uid (Some tpc)"
  using recent_attempts_never_set[of studs0 uid now as] assms
  by (auto simp: generate_adaptive_questions_def Let_def last_n_def)

text \<open>
  Claim C1 does not hold of the code. \<open>generate_adaptive_questions\<close> reads the recent window
  from the attribute \<open>recent_attempts\<close>, which \<open>record_attempt\<close> never writes, so the window
  is always empty and the long-term recommendation is returned unchanged. After three
  correct "medium" attempts in "Math" the recent accuracy is 1.0 and the long-term
  recommendation is "medium"; the claim requires "hard", the code returns "medium".
\<close>

theorem adaptive_questions_keep_long_term:
  "recent_score
     [\<lparr>question_id = ''q1'', topic = ''Math'', difficulty = ''medium'', cognitive_level = ''recall'',
       correct = True, time_taken = 5, timestamp = 0, confidence = 1 / 2\<rparr>,
      \<lparr>question_id = ''q2'', topic = ''Math'', difficulty = ''medium'', cognitive_level = ''recall'',
       correct = True, time_taken = 5, timestamp = 0, confidence = 1 / 2\<rparr>,
      \<lparr>question_id = ''q3'', topic = ''Math'', difficulty = ''medium'', cognitive_level = ''recall'',
       correct = True, time_taken = 5, timestamp = 0, confidence = 1 / 2\<rparr>] = 1
   \<and> get_recommended_difficulty
        (record_all 0 Map.empty ''u1''
          [\<lparr>question_id = ''q1'', topic = ''Math'', difficulty = ''medium'', cognitive_level = ''recall'',
            correct = True, time_taken = 5, timestamp = 0, confidence = 1 / 2\<rparr>,
           \<lparr>question_id = ''q2'', topic = ''Math'', difficulty = ''medium'', cognitive_level = ''recall'',
            correct = True, time_taken = 5, timestamp = 0, confidence = 1 / 2\<rparr>,
           \<lparr>question_id = ''q3'', topic = ''Math'', difficulty = ''medium'', cognitive_level = ''recall'',
            correct = True, time_taken = 5, timestamp = 0, confidence = 1 / 2\<rparr>])
        ''u1'' (Some ''Math'') = ''medium''
   \<and> recommended_difficulty
        (generate_adaptive_questions
          (record_all 0 Map.empty ''u1''
            [\<lparr>question_id = ''q1'', topic = ''Math'', difficulty = ''medium'', cognitive_level = ''recall'',
              correct = True, time_taken = 5, timestamp = 0, confidence = 1 / 2\<rparr>,
             \<lparr>question_id = ''q2'', topic = ''Math'', difficulty = ''medium'', cognitive_level = ''recall'',
              correct = True, time_taken = 5, timestamp = 0, confidence = 1 / 2\<rparr>,
             \<lparr>question_id = ''q3'', topic = ''Math'', difficulty = ''medium'', cognitive_level = ''recall'',
              correct = True, time_taken = 5, timestamp = 0, confidence = 1 / 2\<rparr>])
          ''u1'' ''Math'' 5) = ''medium''"
  by (simp add: ledger_defs generate_adaptive_questions_def get_recommended_difficulty_def
      topic_score_def scores_get_def recent_score_def)

lemma count_levels_keys: "map fst (count_levels levels init) = map fst init"
  unfolding count_levels_def
proof (induction levels arbitrary: init)
  case Nil
  show ?case by simp
next
  case (Cons x xs)
  obtain cl s where x: "x = (cl, s)" by (cases x)
  show ?case
  proof (cases "map_of init cl")
    case None
    then show ?thesis using Cons.IH[of init] by (simp add: x)
  next
    case (Some v)
    then have "map fst (AList.update cl (s_total s) init) = map fst init"
      by (rule keys_update_present)
    then show ?thesis using Some Cons.IH[of "AList.update cl (s_total s) init"] by (simp add: x)
  qed
qed

lemma strength_analysis_level_keys:
  "map fst (sa_cognitive_levels (get_strength_analysis studs uid)) = [''easy'', ''medium'', ''hard'']"
  by (simp add: get_strength_analysis_def Let_def count_levels_keys split: option.splits)

text \<open>
  Claim C4 does not hold of the code. \<open>get_strength_analysis\<close> starts its cognitive-level
  counts from the keys "easy", "medium", "hard" and copies a level's total only when the
  level is one of these keys. After one attempt at level "recall" the profile counts one
  attempt at "recall", and the analysis reports the three difficulty names, all 0, and
  nothing for "recall".
\<close>

theorem strength_analysis_misses_cognitive_levels:
  "map_option cognitive_levels
     (record_all 0 Map.empty ''u1''
        [\<lparr>question_id = ''q1'', topic = ''Math'', difficulty = ''easy'', cognitive_level = ''recall'',
          correct = True, time_taken = 5, timestamp = 0, confidence = 1 / 2\<rparr>] ''u1'')
     = Some [(''recall'', \<lparr>s_correct = 1, s_total = 1\<rparr>)]
   \<and> sa_cognitive_levels
       (get_strength_analysis
         (record_all 0 Map.empty ''u1''
            [\<lparr>question_id = ''q1'', topic = ''Math'', difficulty = ''easy'', cognitive_level = ''recall'',
              correct = True, time_taken = 5, timestamp = 0, confidence = 1 / 2\<rparr>]) ''u1'')
     = [(''easy'', 0), (''medium'', 0), (''hard'', 0)]"
  by (simp add: ledger_defs get_strength_analysis_def count_levels_def)

section \<open>Properties of the difficulty recommender and of the weak topics\<close>

lemma scores_get_bucket_score:
  "scores_get (map (\<lambda>(d, s). (d, topic_score s)) ts) d = bucket_score ts d"
proof -
  have "map_of (map (\<lambda>(d, s). (d, topic_score s)) ts) d = map_option topic_score (map_of ts d)"
    by (induction ts) auto
  then show ?thesis
    by (simp add: scores_get_def bucket_score_def topic_score_def split: option.splits)
qed

text \<open>
  Claim C7, as stated, fails for the empty topic string: the guard
  \<open>if topic and topic in profile.topic_performance\<close> treats it as no topic. After two
  correct "medium" attempts in the topic \<open>''\<close>, that topic is present with 2 attempts in its
  "medium" bucket, so its bucket scores are all 0 and the cascade gives "easy"; the code
  returns the global preferred difficulty, "medium".
\<close>

theorem recommended_difficulty_counterexample:
  "map_option topic_performance
     (record_all 0 Map.empty ''u1''
        [\<lparr>question_id = ''q1'', topic = [], difficulty = ''medium'', cognitive_level = ''recall'',
          correct = True, time_taken = 5, timestamp = 0, confidence = 1 / 2\<rparr>,
         \<lparr>question_id = ''q2'', topic = [], difficulty = ''medium'', cognitive_level = ''recall'',
          correct = True, time_taken = 5, timestamp = 0, confidence = 1 / 2\<rparr>] ''u1'')
     = Some [([], [(''easy'', \<lparr>s_correct = 0, s_total = 0\<rparr>),
                   (''medium'', \<lparr>s_correct = 2, s_total = 2\<rparr>),
                   (''hard'', \<lparr>s_correct = 0, s_total = 0\<rparr>)])]
   \<and> get_recommended_difficulty
       (record_all 0 Map.empty ''u1''
        [\<lparr>question_id = ''q1'', topic = [], difficulty = ''medium'', cognitive_level = ''recall'',
          correct = True, time_taken = 5, timestamp = 0, confidence = 1 / 2\<rparr>,
         \<lparr>question_id = ''q2'', topic = [], difficulty = ''medium'', cognitive_level = ''recall'',
          correct = True, time_taken = 5, timestamp = 0, confidence = 1 / 2\<rparr>])
       ''u1'' (Some []) = ''medium''
   \<and> (if 7 / 10 \<le> bucket_score [(''easy'', \<lparr>s_correct = 0, s_total = 0\<rparr>),
                                    (''medium'', \<lparr>s_correct = 2, s_total = 2\<rparr>),
                                    (''hard'', \<lparr>s_correct = 0, s_total = 0\<rparr>)] ''hard'' then ''hard''
        else if 6 / 10 \<le> bucket_score [(''easy'', \<lparr>s_correct = 0, s_total = 0\<rparr>),
                                         (''medium'', \<lparr>s_correct = 2, s_total = 2\<rparr>),
                                         (''hard'', \<lparr>s_correct = 0, s_total = 0\<rparr>)] ''medium''
        then ''medium'' else ''easy'') = ''easy''"
  by (simp add: record_attempt_def record_attempt_profile_def update_basic_stats_def
  update_topic_performance_def ensure_topic_def update_cognitive_level_def
  update_learning_pace_def update_preferred_difficulty_def scored_items_def avg_score_def
  new_profile_def new_topic_stats_def zero_stats_def tally_def difficulties_def mean_def
  last_n_def Let_def get_recommended_difficulty_def bucket_score_def fl64_3_5 fl64_7_10)

text \<open>
  Claim C7, amended. For a known user and a non-empty topic present in the profile,
  \<open>get_recommended_difficulty\<close> scores each bucket of that topic as correct/total when the
  bucket has at least 3 attempts and as 0 otherwise, and returns "hard" if the hard score
  is at least 0.70, else "medium" if the medium score is at least 0.60, else "easy"; with
  exactly 2 attempts in the "hard" bucket the result is not "hard". For an unknown user it
  returns "medium". For a known user with no topic, the empty topic or a topic not in the
  profile it returns the profile's preferred difficulty.
\<close>

theorem recommended_difficulty_cases:
  "(studs uid = None \<longrightarrow> get_recommended_difficulty studs uid topic_arg = ''medium'')
   \<and> (studs uid = Some p \<and> topic_arg = Some t \<and> t \<noteq> [] \<and> map_of (topic_performance p) t = Some ts \<longrightarrow>
        get_recommended_difficulty studs uid topic_arg =
          (if 7 / 10 \<le> bucket_score ts ''hard'' then ''hard''
           else if 6 / 10 \<le> bucket_score ts ''medium'' then ''medium''
           else ''easy'')
        \<and> (map_of ts ''hard'' = Some s \<and> s_total s = 2 \<longrightarrow>
             get_recommended_difficulty studs uid topic_arg \<noteq> ''hard''))
   \<and> (studs uid = Some p \<and>
        (topic_arg = None \<or> topic_arg = Some [] \<or>
         (topic_arg = Some t \<and> map_of (topic_performance p) t = None)) \<longrightarrow>
        get_recommended_difficulty studs uid topic_arg = preferred_difficulty p)"
proof (intro conjI impI)
  assume "studs uid = None"
  then show "get_recommended_difficulty studs uid topic_arg = ''medium''"
    by (simp add: get_recommended_difficulty_def)
next
  assume a: "studs uid = Some p \<and> topic_arg = Some t \<and> t \<noteq> [] \<and> map_of (topic_performance p) t = Some ts"
  then show r: "get_recommended_difficulty studs uid topic_arg =
          (if 7 / 10 \<le> bucket_score ts ''hard'' then ''hard''
           else if 6 / 10 \<le> bucket_score ts ''medium'' then ''medium''
           else ''easy'')"
    by (simp add: get_recommended_difficulty_def Let_def scores_get_bucket_score)
  assume "map_of ts ''hard'' = Some s \<and> s_total s = 2"
  then have "bucket_score ts ''hard'' = 0"
    by (simp add: bucket_score_def)
  with r show "get_recommended_difficulty studs uid topic_arg \<noteq> ''hard''"
    by simp
next
  assume "studs uid = Some p \<and>
        (topic_arg = None \<or> topic_arg = Some [] \<or>
         (topic_arg = Some t \<and> map_of (topic_performance p) t = None))"
  then show "get_recommended_difficulty studs uid topic_arg = preferred_difficulty p"
    by (auto simp: get_recommended_difficulty_def)
qed

theorem recommended_difficulty_cases_witness:
  "get_recommended_difficulty Map.empty ''u1'' (Some ''Math'') = ''medium''
   \<and> get_recommended_difficulty
        [''u1'' \<mapsto> \<lparr>user_id = ''u1'',
           topic_performance = [(''Math'', [(''easy'', \<lparr>s_correct = 1, s_total = 4\<rparr>),
                                           (''medium'', \<lparr>s_correct = 3, s_total = 3\<rparr>),
                                           (''hard'', \<lparr>s_correct = 2, s_total = 2\<rparr>)])],
           cognitive_levels = [(''recall'', \<lparr>s_correct = 6, s_total = 9\<rparr>)],
           learning_pace = 12, preferred_difficulty = ''hard'', last_activity = 0,
           total_questions = 9, correct_answers = 6, recent_times = Some [5], recent_attempts = None\<rparr>]
        ''u1'' (Some ''Math'') = ''medium''
   \<and> get_recommended_difficulty
        [''u1'' \<mapsto> \<lparr>user_id = ''u1'',
           topic_performance = [(''Math'', [(''easy'', \<lparr>s_correct = 1, s_total = 4\<rparr>),
                                           (''medium'', \<lparr>s_correct = 3, s_total = 3\<rparr>),
                                           (''hard'', \<lparr>s_correct = 2, s_total = 2\<rparr>)])],
           cognitive_levels = [(''recall'', \<lparr>s_correct = 6, s_total = 9\<rparr>)],
           learning_pace = 12, preferred_difficulty = ''hard'', last_activity = 0,
           total_questions = 9, correct_answers = 6, recent_times = Some [5], recent_attempts = None\<rparr>]
        ''u1'' (Some ''Physics'') = ''hard''"
  using recommended_difficulty_cases [of Map.empty "''u1''" "Some ''Math''"]
    recommended_difficulty_cases [of
        "[''u1'' \<mapsto> \<lparr>user_id = ''u1'',
           topic_performance = [(''Math'', [(''easy'', \<lparr>s_correct = 1, s_total = 4\<rparr>),
                                           (''medium'', \<lparr>s_correct = 3, s_total = 3\<rparr>),
                                           (''hard'', \<lparr>s_correct = 2, s_total = 2\<rparr>)])],
           cognitive_levels = [(''recall'', \<lparr>s_correct = 6, s_total = 9\<rparr>)],
           learning_pace = 12, preferred_difficulty = ''hard'', last_activity = 0,
           total_questions = 9, correct_answers = 6, recent_times = Some [5], recent_attempts = None\<rparr>]"
        "''u1''" "Some ''Math''"
        "\<lparr>user_id = ''u1'',
           topic_performance = [(''Math'', [(''easy'', \<lparr>s_correct = 1, s_total = 4\<rparr>),
                                           (''medium'', \<lparr>s_correct = 3, s_total = 3\<rparr>),
                                           (''hard'', \<lparr>s_correct = 2, s_total = 2\<rparr>)])],
           cognitive_levels = [(''recall'', \<lparr>s_correct = 6, s_total = 9\<rparr>)],
           learning_pace = 12, preferred_difficulty = ''hard'', last_activity = 0,
           total_questions = 9, correct_answers = 6, recent_times = Some [5], recent_attempts = None\<rparr>"
        "''Math''"
        "[(''easy'', \<lparr>s_correct = 1, s_total = 4\<rparr>),
          (''medium'', \<lparr>s_correct = 3, s_total = 3\<rparr>),
          (''hard'', \<lparr>s_correct = 2, s_total = 2\<rparr>)]"
        "\<lparr>s_correct = 2, s_total = 2\<rparr>"]
    recommended_difficulty_cases [of
        "[''u1'' \<mapsto> \<lparr>user_id = ''u1'',
           topic_performance = [(''Math'', [(''easy'', \<lparr>s_correct = 1, s_total = 4\<rparr>),
                                           (''medium'', \<lparr>s_correct = 3, s_total = 3\<rparr>),
                                           (''hard'', \<lparr>s_correct = 2, s_total = 2\<rparr>)])],
           cognitive_levels = [(''recall'', \<lparr>s_correct = 6, s_total = 9\<rparr>)],
           learning_pace = 12, preferred_difficulty = ''hard'', last_activity = 0,
           total_questions = 9, correct_answers = 6, recent_times = Some [5], recent_attempts = None\<rparr>]"
        "''u1''" "Some ''Physics''"
        "\<lparr>user_id = ''u1'',
           topic_performance = [(''Math'', [(''easy'', \<lparr>s_correct = 1, s_total = 4\<rparr>),
                                           (''medium'', \<lparr>s_correct = 3, s_total = 3\<rparr>),
                                           (''hard'', \<lparr>s_correct = 2, s_total = 2\<rparr>)])],
           cognitive_levels = [(''recall'', \<lparr>s_correct = 6, s_total = 9\<rparr>)],
           learning_pace = 12, preferred_difficulty = ''hard'', last_activity = 0,
           total_questions = 9, correct_answers = 6, recent_times = Some [5], recent_attempts = None\<rparr>"
        "''Physics''"]
  by (simp add: bucket_score_def)

lemma sorted_take_drop:
  assumes "sorted (map f xs)" "x \<in> set (take n xs)" "y \<in> set (drop n xs)"
  shows "f x \<le> f y"
proof -
  have "map f xs = map f (take n xs) @ map f (drop n xs)"
    by (simp flip: map_append)
  with assms(1) have "sorted (map f (take n xs) @ map f (drop n xs))"
    by simp
  then have "\<forall>a \<in> set (map f (take n xs)). \<forall>b \<in> set (map f (drop n xs)). a \<le> b"
    unfolding sorted_append by blast
  moreover have "f x \<in> set (map f (take n xs))" using assms(2) by simp
  moreover have "f y \<in> set (map f (drop n xs))" using assms(3) by simp
  ultimately show ?thesis by blast
qed

lemma in_take_or_drop:
  assumes "x \<in> set xs"
  shows "x \<in> set (take n xs) \<or> x \<in> set (drop n xs)"
proof -
  have "set xs = set (take n xs) \<union> set (drop n xs)"
    by (simp flip: set_append)
  with assms show ?thesis by blast
qed

lemma drop_nonempty_take_full:
  assumes "x \<in> set (drop n xs)"
  shows "length (take n xs) = n"
proof (cases "n \<le> length xs")
  case True
  then show ?thesis by simp
next
  case False
  then have "drop n xs = []" by simp
  with assms show ?thesis by simp
qed

lemma weak_topics_unfold:
  assumes "studs uid = Some p"
  obtains k where
    "get_weak_topics studs uid limit =
       take k (sort_key snd (map (\<lambda>(t, ts). (t, accuracy ts))
          (filter (\<lambda>(t, ts). total_attempts ts \<ge> 5) (topic_performance p))))"
    "0 \<le> limit \<longrightarrow> k = nat limit"
proof (cases "0 \<le> limit")
  case True
  with assms show ?thesis
    using that[of "nat limit"] by (simp add: get_weak_topics_def Let_def slice_to_def)
next
  case False
  with assms show ?thesis
    using that[of "length (filter (\<lambda>(t, ts). total_attempts ts \<ge> 5) (topic_performance p)) - nat (- limit)"]
    by (simp add: get_weak_topics_def Let_def slice_to_def)
qed

lemma eligible_mem:
  assumes "distinct (map fst tp)"
  shows "x \<in> set (map (\<lambda>(t, ts). (t, accuracy ts)) (filter (\<lambda>(t, ts). total_attempts ts \<ge> 5) tp))
         \<longleftrightarrow> (\<exists>ts. map_of tp (fst x) = Some ts \<and> 5 \<le> total_attempts ts \<and> snd x = accuracy ts)"
proof
  assume "x \<in> set (map (\<lambda>(t, ts). (t, accuracy ts)) (filter (\<lambda>(t, ts). total_attempts ts \<ge> 5) tp))"
  then obtain y where y: "y \<in> set tp" "5 \<le> total_attempts (snd y)" "x = (fst y, accuracy (snd y))"
    by (auto simp: case_prod_beta)
  from y(1) have "(fst y, snd y) \<in> set tp" by simp
  with assms have "map_of tp (fst y) = Some (snd y)"
    by (rule map_of_is_SomeI)
  with y(2,3) show "\<exists>ts. map_of tp (fst x) = Some ts \<and> 5 \<le> total_attempts ts \<and> snd x = accuracy ts"
    by simp
next
  assume "\<exists>ts. map_of tp (fst x) = Some ts \<and> 5 \<le> total_attempts ts \<and> snd x = accuracy ts"
  then obtain ts where ts: "map_of tp (fst x) = Some ts" "5 \<le> total_attempts ts" "snd x = accuracy ts"
    by blast
  from ts(1) have "(fst x, ts) \<in> set tp" by (rule map_of_SomeD)
  with ts(2) have "(fst x, ts) \<in> set (filter (\<lambda>(t, ts). total_attempts ts \<ge> 5) tp)"
    by simp
  then have "(\<lambda>(t, ts). (t, accuracy ts)) (fst x, ts)
               \<in> set (map (\<lambda>(t, ts). (t, accuracy ts)) (filter (\<lambda>(t, ts). total_attempts ts \<ge> 5) tp))"
    unfolding set_map by (rule imageI)
  moreover have "(\<lambda>(t, ts). (t, accuracy ts)) (fst x, ts) = x"
    using ts(3) by (cases x) simp
  ultimately show "x \<in> set (map (\<lambda>(t, ts). (t, accuracy ts)) (filter (\<lambda>(t, ts). total_attempts ts \<ge> 5) tp))"
    by simp
qed

text \<open>
  Claim C9, as stated, fails where the limit cuts the list. In the example profile
  "Physics" has 6 attempts and "Geometry" 5; with limit 1 only "Geometry" (accuracy 0.2)
  is returned, so a topic with at least 5 attempts is not included. With limit -1 the
  slice \<open>topic_scores[:limit]\<close> drops the last pair and returns one pair, which is more
  than the limit.
\<close>

theorem weak_topics_counterexample:
  "map_option total_attempts (map_of (topic_performance example_profile) ''Physics'') = Some 6
   \<and> get_weak_topics [''u1'' \<mapsto> example_profile] ''u1'' 1 = [(''Geometry'', 1 / 5)]
   \<and> get_weak_topics [''u1'' \<mapsto> example_profile] ''u1'' (- 1) = [(''Geometry'', 1 / 5)]"
  by (simp add: get_weak_topics_def example_profile_def total_attempts_def total_correct_def
      accuracy_def slice_to_def Let_def)

text \<open>
  Claim C9, amended. For a known user, every pair returned by \<open>get_weak_topics\<close> is a topic
  with at least 5 attempts summed over its buckets, paired with its overall accuracy; the
  pairs are sorted by accuracy ascending; a topic with fewer than 5 attempts never
  appears. When the limit is not negative, at most \<open>limit\<close> pairs are returned, and a topic
  with at least 5 attempts is left out only when \<open>limit\<close> pairs are returned whose
  accuracies are all at most its own. For an unknown user the result is empty.
  (The topic keys of a dictionary are distinct.)
\<close>

theorem weak_topics_spec:
  "(studs uid = None \<longrightarrow> get_weak_topics studs uid limit = [])
   \<and> (studs uid = Some p \<and> distinct (map fst (topic_performance p)) \<longrightarrow>
        (\<forall>x \<in> set (get_weak_topics studs uid limit).
           \<exists>ts. map_of (topic_performance p) (fst x) = Some ts \<and> 5 \<le> total_attempts ts
                \<and> snd x = accuracy ts)
        \<and> sorted (map snd (get_weak_topics studs uid limit))
        \<and> (\<forall>t ts. map_of (topic_performance p) t = Some ts \<and> total_attempts ts < 5 \<longrightarrow>
              t \<notin> fst ` set (get_weak_topics studs uid limit))
        \<and> (0 \<le> limit \<longrightarrow>
              length (get_weak_topics studs uid limit) \<le> nat limit
              \<and> (\<forall>t ts. map_of (topic_performance p) t = Some ts \<and> 5 \<le> total_attempts ts \<longrightarrow>
                    (t, accuracy ts) \<in> set (get_weak_topics studs uid limit)
                    \<or> (length (get_weak_topics studs uid limit) = nat limit
                        \<and> (\<forall>x \<in> set (get_weak_topics studs uid limit). snd x \<le> accuracy ts)))))"
proof (rule conjI)
  show "studs uid = None \<longrightarrow> get_weak_topics studs uid limit = []"
    by (simp add: get_weak_topics_def)
next
  show "studs uid = Some p \<and> distinct (map fst (topic_performance p)) \<longrightarrow>
        (\<forall>x \<in> set (get_weak_topics studs uid limit).
           \<exists>ts. map_of (topic_performance p) (fst x) = Some ts \<and> 5 \<le> total_attempts ts
                \<and> snd x = accuracy ts)
        \<and> sorted (map snd (get_weak_topics studs uid limit))
        \<and> (\<forall>t ts. map_of (topic_performance p) t = Some ts \<and> total_attempts ts < 5 \<longrightarrow>
              t \<notin> fst ` set (get_weak_topics studs uid limit))
        \<and> (0 \<le> limit \<longrightarrow>
              length (get_weak_topics studs uid limit) \<le> nat limit
              \<and> (\<forall>t ts. map_of (topic_performance p) t = Some ts \<and> 5 \<le> total_attempts ts \<longrightarrow>
                    (t, accuracy ts) \<in> set (get_weak_topics studs uid limit)
                    \<or> (length (get_weak_topics studs uid limit) = nat limit
                        \<and> (\<forall>x \<in> set (get_weak_topics studs uid limit). snd x \<le> accuracy ts))))"
  proof (rule impI)
    assume a: "studs uid = Some p \<and> distinct (map fst (topic_performance p))"
    define E where "E = map (\<lambda>(t, ts). (t, accuracy ts))
                          (filter (\<lambda>(t, ts). total_attempts ts \<ge> 5) (topic_performance p))"
    define L where "L = sort_key snd E"
    define R where "R = get_weak_topics studs uid limit"
    obtain k where R: "R = take k L" and k: "0 \<le> limit \<longrightarrow> k = nat limit"
      unfolding R_def L_def E_def using weak_topics_unfold[of studs uid p limit] a by blast
    have setL: "set L = set E" by (simp add: L_def)
    have sortedL: "sorted (map snd L)" by (simp add: L_def)
    have mem: "x \<in> set E \<longleftrightarrow>
        (\<exists>ts. map_of (topic_performance p) (fst x) = Some ts \<and> 5 \<le> total_attempts ts \<and> snd x = accuracy ts)" for x
      unfolding E_def using a by (simp only: eligible_mem)
    have sub: "set R \<subseteq> set E"
      unfolding R setL[symmetric] by (rule set_take_subset)
    have 1: "\<forall>x \<in> set R. \<exists>ts. map_of (topic_performance p) (fst x) = Some ts \<and> 5 \<le> total_attempts ts
                \<and> snd x = accuracy ts"
      using sub mem by blast
    have "sorted (take k (map snd L))"
      using sortedL by (rule sorted_wrt_take)
    then have 2: "sorted (map snd R)"
      unfolding R by (simp only: take_map)
    have 3: "\<forall>t ts. map_of (topic_performance p) t = Some ts \<and> total_attempts ts < 5 \<longrightarrow>
              t \<notin> fst ` set R"
    proof (intro allI impI notI)
      fix t ts
      assume b: "map_of (topic_performance p) t = Some ts \<and> total_attempts ts < 5"
      assume "t \<in> fst ` set R"
      then obtain x where x: "x \<in> set R" "fst x = t" by blast
      from x(1) sub have "x \<in> set E" by blast
      then obtain ts' where "map_of (topic_performance p) (fst x) = Some ts'" "5 \<le> total_attempts ts'"
        unfolding mem by blast
      with b x(2) show False by simp
    qed
    have 4: "length R \<le> nat limit
              \<and> (\<forall>t ts. map_of (topic_performance p) t = Some ts \<and> 5 \<le> total_attempts ts \<longrightarrow>
                    (t, accuracy ts) \<in> set R
                    \<or> (length R = nat limit \<and> (\<forall>x \<in> set R. snd x \<le> accuracy ts)))"
      if nonneg: "0 \<le> limit"
    proof (rule conjI)
      from k nonneg have kn: "k = nat limit" by blast
      show "length R \<le> nat limit"
        unfolding R kn by simp
      show "\<forall>t ts. map_of (topic_performance p) t = Some ts \<and> 5 \<le> total_attempts ts \<longrightarrow>
                    (t, accuracy ts) \<in> set R
                    \<or> (length R = nat limit \<and> (\<forall>x \<in> set R. snd x \<le> accuracy ts))"
      proof (intro allI impI)
        fix t ts
        assume b: "map_of (topic_performance p) t = Some ts \<and> 5 \<le> total_attempts ts"
        have "(t, accuracy ts) \<in> set E"
          unfolding mem using b by simp
        then have "(t, accuracy ts) \<in> set L" using setL by simp
        then have "(t, accuracy ts) \<in> set (take k L) \<or> (t, accuracy ts) \<in> set (drop k L)"
          by (rule in_take_or_drop)
        then show "(t, accuracy ts) \<in> set R
                    \<or> (length R = nat limit \<and> (\<forall>x \<in> set R. snd x \<le> accuracy ts))"
        proof
          assume "(t, accuracy ts) \<in> set (take k L)"
          then show ?thesis unfolding R by (rule disjI1)
        next
          assume d: "(t, accuracy ts) \<in> set (drop k L)"
          have "length (take k L) = k"
            using d by (rule drop_nonempty_take_full)
          moreover have "\<forall>x \<in> set (take k L). snd x \<le> accuracy ts"
          proof
            fix x assume "x \<in> set (take k L)"
            from sorted_take_drop[OF sortedL this d] show "snd x \<le> accuracy ts" by simp
          qed
          ultimately show ?thesis unfolding R kn by blast
        qed
      qed
    qed
    from 1 2 3 4 show "(\<forall>x \<in> set (get_weak_topics studs uid limit).
           \<exists>ts. map_of (topic_performance p) (fst x) = Some ts \<and> 5 \<le> total_attempts ts
                \<and> snd x = accuracy ts)
        \<and> sorted (map snd (get_weak_topics studs uid limit))
        \<and> (\<forall>t ts. map_of (topic_performance p) t = Some ts \<and> total_attempts ts < 5 \<longrightarrow>
              t \<notin> fst ` set (get_weak_topics studs uid limit))
        \<and> (0 \<le> limit \<longrightarrow>
              length (get_weak_topics studs uid limit) \<le> nat limit
              \<and> (\<forall>t ts. map_of (topic_performance p) t = Some ts \<and> 5 \<le> total_attempts ts \<longrightarrow>
                    (t, accuracy ts) \<in> set (get_weak_topics studs uid limit)
                    \<or> (length (get_weak_topics studs uid limit) = nat limit
                        \<and> (\<forall>x \<in> set (get_weak_topics studs uid limit). snd x \<le> accuracy ts))))"
      unfolding R_def by (intro conjI impI) blast+
  qed
qed

theorem weak_topics_spec_witness:
  "''Algebra'' \<notin> fst ` set (get_weak_topics [''u1'' \<mapsto> example_profile] ''u1'' 5)
   \<and> sorted (map snd (get_weak_topics [''u1'' \<mapsto> example_profile] ''u1'' 5))
   \<and> length (get_weak_topics [''u1'' \<mapsto> example_profile] ''u1'' 5) \<le> 5
   \<and> (''Geometry'', 1 / 5) \<in> set (get_weak_topics [''u1'' \<mapsto> example_profile] ''u1'' 5)
   \<and> get_weak_topics Map.empty ''u1'' 5 = []"
proof -
  let ?S = "[''u1'' \<mapsto> example_profile]"
  let ?R = "get_weak_topics ?S ''u1'' 5"
  let ?A = "[(''easy'', \<lparr>s_correct = 0, s_total = 4\<rparr>),
             (''medium'', \<lparr>s_correct = 0, s_total = 0\<rparr>),
             (''hard'', \<lparr>s_correct = 0, s_total = 0\<rparr>)]"
  let ?G = "[(''easy'', \<lparr>s_correct = 1, s_total = 2\<rparr>),
             (''medium'', \<lparr>s_correct = 0, s_total = 3\<rparr>),
             (''hard'', \<lparr>s_correct = 0, s_total = 0\<rparr>)]"
  have hyp: "?S ''u1'' = Some example_profile
               \<and> distinct (map fst (topic_performance example_profile))"
    by (simp add: example_profile_def)
  have all: "(\<forall>x \<in> set ?R.
           \<exists>ts. map_of (topic_performance example_profile) (fst x) = Some ts \<and> 5 \<le> total_attempts ts
                \<and> snd x = accuracy ts)
        \<and> sorted (map snd ?R)
        \<and> (\<forall>t ts. map_of (topic_performance example_profile) t = Some ts \<and> total_attempts ts < 5 \<longrightarrow>
              t \<notin> fst ` set ?R)
        \<and> ((0::int) \<le> 5 \<longrightarrow>
              length ?R \<le> nat 5
              \<and> (\<forall>t ts. map_of (topic_performance example_profile) t = Some ts \<and> 5 \<le> total_attempts ts \<longrightarrow>
                    (t, accuracy ts) \<in> set ?R
                    \<or> (length ?R = nat 5 \<and> (\<forall>x \<in> set ?R. snd x \<le> accuracy ts))))"
    by (rule mp [OF conjunct2 [OF weak_topics_spec [of ?S "''u1''" 5 example_profile]] hyp])
  have a: "map_of (topic_performance example_profile) ''Algebra'' = Some ?A \<and> total_attempts ?A < 5"
    by (simp add: example_profile_def total_attempts_def)
  have g: "map_of (topic_performance example_profile) ''Geometry'' = Some ?G \<and> 5 \<le> total_attempts ?G"
    by (simp add: example_profile_def total_attempts_def)
  have gacc: "accuracy ?G = 1 / 5"
    by (simp add: accuracy_def total_attempts_def total_correct_def)
  from all a have 1: "''Algebra'' \<notin> fst ` set ?R" by blast
  from all have 2: "sorted (map snd ?R)" by blast
  from all have 3: "length ?R \<le> 5" by simp
  from all have "\<forall>t ts. map_of (topic_performance example_profile) t = Some ts \<and> 5 \<le> total_attempts ts \<longrightarrow>
                    (t, accuracy ts) \<in> set ?R
                    \<or> (length ?R = nat 5 \<and> (\<forall>x \<in> set ?R. snd x \<le> accuracy ts))"
    by simp
  with g have "(''Geometry'', accuracy ?G) \<in> set ?R
       \<or> (length ?R = nat 5 \<and> (\<forall>x \<in> set ?R. snd x \<le> accuracy ?G))"
    by blast
  moreover have "length ?R \<noteq> nat 5"
    by (simp add: get_weak_topics_def example_profile_def total_attempts_def slice_to_def Let_def)
  ultimately have 4: "(''Geometry'', 1 / 5) \<in> set ?R"
    unfolding gacc by blast
  have 5: "get_weak_topics Map.empty ''u1'' 5 = []"
    using weak_topics_spec [of Map.empty "''u1''" 5] by simp
  from 1 2 3 4 5 show ?thesis by blast
qed

section \<open>Properties of the confidence-gated answerer\<close>

lemma fl64_4_5: "fl64 (4 / 5) = 3602879701896397 / 4503599627370496"
  using fl64_eval[of "- 1" "4 / 5"] by (simp add: round_half_even_def power_int_minus_divide)

lemma fl64_11_10: "fl64 (11 / 10) = 2476979795053773 / 2251799813685248"
  using fl64_eval[of 0 "11 / 10"] by (simp add: round_half_even_def power_int_minus_divide)

lemma np_mean_seq_2: "np_mean_seq [a, b] = fl64 (fl64 (fl64 a + b) / 2)"
  by (simp add: np_mean_seq_def)

lemma confidence_below_threshold:
  "context_confidence numpy_lib chunks_below_threshold = 2702159776422297 / 9007199254740992"
proof -
  have a: "fl64 (5404319552844595 / 18014398509481984) = 5404319552844595 / 18014398509481984"
    using fl64_eval[of "- 2" "5404319552844595 / 18014398509481984"]
    by (simp add: round_half_even_def power_int_minus_divide)
  have s: "fl64 (5404319552844595 / 18014398509481984 + 2476979795053773 / 2251799813685248)
           = 6305039478318695 / 4503599627370496"
    using fl64_eval[of 0 "5404319552844595 / 18014398509481984 + 2476979795053773 / 2251799813685248"]
    by (simp add: round_half_even_def power_int_minus_divide)
  have m: "fl64 (6305039478318695 / 4503599627370496 / 2) = 6305039478318695 / 9007199254740992"
    using fl64_eval[of "- 1" "6305039478318695 / 4503599627370496 / 2"]
    by (simp add: round_half_even_def power_int_minus_divide)
  have k: "fl64 (1 - 6305039478318695 / 9007199254740992) = 2702159776422297 / 9007199254740992"
    using fl64_eval[of "- 2" "1 - 6305039478318695 / 9007199254740992"]
    by (simp add: round_half_even_def power_int_minus_divide)
  have "np_mean_seq (map distance chunks_below_threshold) = 6305039478318695 / 9007199254740992"
    unfolding chunks_below_threshold_def list.map chunk.select_convs np_mean_seq_2 fl64_3_10 fl64_11_10 a s m
    by (rule refl)
  then have "context_confidence numpy_lib chunks_below_threshold
               = max (3602879701896397 / 36028797018963968) (2702159776422297 / 9007199254740992)"
    by (simp only: context_confidence_def numpy_lib_def float_lib.select_convs k fl64_1_10)
  then show ?thesis by simp
qed

lemma confidence_above_threshold:
  "context_confidence numpy_lib chunks_above_threshold = 1351079888211149 / 4503599627370496"
proof -
  have a: "fl64 (3152519739159347 / 4503599627370496) = 3152519739159347 / 4503599627370496"
    using fl64_eval[of "- 1" "3152519739159347 / 4503599627370496"]
    by (simp add: round_half_even_def power_int_minus_divide)
  have s: "fl64 (3152519739159347 / 4503599627370496 + 6305039478318695 / 9007199254740992)
           = 3152519739159347 / 2251799813685248"
    using fl64_eval[of 0 "3152519739159347 / 4503599627370496 + 6305039478318695 / 9007199254740992"]
    by (simp add: round_half_even_def power_int_minus_divide)
  have m: "fl64 (3152519739159347 / 2251799813685248 / 2) = 3152519739159347 / 4503599627370496"
    using fl64_eval[of "- 1" "3152519739159347 / 2251799813685248 / 2"]
    by (simp add: round_half_even_def power_int_minus_divide)
  have k: "fl64 (1 - 3152519739159347 / 4503599627370496) = 1351079888211149 / 4503599627370496"
    using fl64_eval[of "- 2" "1 - 3152519739159347 / 4503599627370496"]
    by (simp add: round_half_even_def power_int_minus_divide)
  have "np_mean_seq (map distance chunks_above_threshold) = 3152519739159347 / 4503599627370496"
    unfolding chunks_above_threshold_def list.map chunk.select_convs np_mean_seq_2 fl64_7_10 a s m
    by (rule refl)
  then have "context_confidence numpy_lib chunks_above_threshold
               = max (3602879701896397 / 36028797018963968) (1351079888211149 / 4503599627370496)"
    by (simp only: context_confidence_def numpy_lib_def float_lib.select_convs k fl64_1_10)
  then show ?thesis by simp
qed

text \<open>
  The branch is decided on the doubles. The exact mean of 0.3 and 1.1 is 0.7 and would give
  the confidence 0.3; the doubles give 0.29999999999999993, and the answer is of general
  knowledge. The exact mean of 0.7 and 0.7000000000000001 is above 0.7; the doubles give
  the mean 0.7 and the confidence 0.30000000000000004, and the answer is from the
  curriculum.
\<close>

lemma answer_below_threshold:
  "answer_type (generate_answer_with_context numpy_lib (\<lambda>p. Inr ''ok'') ''q'' chunks_below_threshold)
     = ''general_knowledge''"
proof -
  have "context_confidence numpy_lib chunks_below_threshold < fl64 (3 / 10)"
    unfolding confidence_below_threshold fl64_3_10 by simp
  moreover have "chunks_below_threshold \<noteq> []"
    by (simp add: chunks_below_threshold_def)
  ultimately show ?thesis
    by (simp add: generate_answer_with_context_def generate_general_knowledge_answer_def Let_def)
qed

lemma answer_above_threshold:
  "answer_type (generate_answer_with_context numpy_lib (\<lambda>p. Inr ''ok'') ''q'' chunks_above_threshold)
     = ''curriculum_based''"
proof -
  have "\<not> context_confidence numpy_lib chunks_above_threshold < fl64 (3 / 10)"
    unfolding confidence_above_threshold fl64_3_10 by simp
  moreover have "chunks_above_threshold \<noteq> []"
    by (simp add: chunks_above_threshold_def)
  ultimately show ?thesis
    by (simp add: generate_answer_with_context_def Let_def)
qed


text \<open>
  Claim C3. When the retriever returns no chunk, or chunks whose computed confidence,
  the double \<open>max(0.1, 1.0 - np.mean(distances))\<close>, is below the double 0.3, and the language
  model call returns, the answer is of type "general\_knowledge", its confidence is the
  double 0.7 and its sources are ["General Knowledge"], whichever of the two conditions
  led there; the chunk count is the number of chunks passed in (0 when there is none).
\<close>

theorem general_knowledge_fallback:
  assumes "chunks = [] \<or>
           max (fl64 (1 / 10)) (fl64 (1 - np_mean lib (map distance chunks))) < fl64 (3 / 10)"
    and "llm (prompt_for lib query chunks) = Inr a"
  shows "answer_type (generate_answer_with_context lib llm query chunks) = ''general_knowledge''
       \<and> answer_confidence (generate_answer_with_context lib llm query chunks) = fl64 (7 / 10)
       \<and> sources (generate_answer_with_context lib llm query chunks) = [''General Knowledge'']
       \<and> context_chunks (generate_answer_with_context lib llm query chunks) = Some (int (length chunks))"
proof (cases "chunks = []")
  case True
  with assms(2) show ?thesis
    by (simp add: generate_answer_with_context_def generate_general_knowledge_answer_def
        prompt_for_def Let_def)
next
  case False
  with assms(1) have "context_confidence lib chunks < fl64 (3 / 10)"
    unfolding context_confidence_def by blast
  with False assms(2) show ?thesis
    by (simp add: generate_answer_with_context_def generate_general_knowledge_answer_def
        prompt_for_def Let_def)
qed

text \<open>
  Claim C5. If the call to the language model made while processing a question raises,
  \<open>process_question\<close> still returns a result (it has no exceptional outcome), and that
  result has type "error", confidence 0.0 and no sources.
\<close>

theorem llm_failure_error_answer:
  assumes "llm (prompt_for lib query (search query)) = Inl e"
  shows "answer_type (fst (process_question lib search llm query uid)) = ''error''
       \<and> answer_confidence (fst (process_question lib search llm query uid)) = 0
       \<and> sources (fst (process_question lib search llm query uid)) = []"
proof -
  have "answer_type (generate_answer_with_context lib llm query chunks) = ''error''
       \<and> answer_confidence (generate_answer_with_context lib llm query chunks) = 0
       \<and> sources (generate_answer_with_context lib llm query chunks) = []"
    if "llm (prompt_for lib query chunks) = Inl e" for chunks
    using that
    by (simp add: generate_answer_with_context_def generate_general_knowledge_answer_def
        prompt_for_def Let_def error_answer_def split: if_splits)
  with assms show ?thesis
    by (simp add: process_question_def Let_def)
qed

theorem llm_failure_error_answer_witness:
  "answer_type (fst (process_question numpy_lib (\<lambda>q. []) (\<lambda>p. Inl (PyException ''quota'')) ''q'' (Some ''u1''))) = ''error''
   \<and> answer_confidence (fst (process_question numpy_lib (\<lambda>q. []) (\<lambda>p. Inl (PyException ''quota'')) ''q'' (Some ''u1''))) = 0
   \<and> sources (fst (process_question numpy_lib (\<lambda>q. []) (\<lambda>p. Inl (PyException ''quota'')) ''q'' (Some ''u1''))) = []"
  using llm_failure_error_answer [of "\<lambda>p. Inl (PyException ''quota'')" numpy_lib "''q''" "\<lambda>q. []" "PyException ''quota''" "Some ''u1''"]
  by simp



theorem general_knowledge_fallback_witness:
  "answer_type (generate_answer_with_context numpy_lib (\<lambda>p. Inr ''ok'') ''q'' []) = ''general_knowledge''
   \<and> answer_confidence (generate_answer_with_context numpy_lib (\<lambda>p. Inr ''ok'') ''q'' []) = fl64 (7 / 10)
   \<and> sources (generate_answer_with_context numpy_lib (\<lambda>p. Inr ''ok'') ''q'' []) = [''General Knowledge'']
   \<and> answer_type (generate_answer_with_context numpy_lib (\<lambda>p. Inr ''ok'') ''q'' chunks_below_threshold)
        = ''general_knowledge''
   \<and> answer_confidence (generate_answer_with_context numpy_lib (\<lambda>p. Inr ''ok'') ''q'' chunks_below_threshold)
        = fl64 (7 / 10)"
proof -
  have conf: "chunks_below_threshold = [] \<or>
      max (fl64 (1 / 10)) (fl64 (1 - np_mean numpy_lib (map distance chunks_below_threshold))) < fl64 (3 / 10)"
    unfolding confidence_below_threshold [unfolded context_confidence_def] fl64_3_10 by simp
  show ?thesis
    using general_knowledge_fallback [of "[]" numpy_lib "\<lambda>p. Inr ''ok''" "''q''" "''ok''"]
      general_knowledge_fallback [of chunks_below_threshold numpy_lib "\<lambda>p. Inr ''ok''" "''q''" "''ok''",
        OF conf]
    by simp
qed

lemma hard_average_in_doubles:
  "avg_score (scored_items hard_profile) ''hard'' = 6305039478318693 / 9007199254740992"
proof -
  have a: "fl64 (5404319552844595 / 9007199254740992) = 5404319552844595 / 9007199254740992"
    using fl64_eval[of "- 1" "5404319552844595 / 9007199254740992"]
    by (simp add: round_half_even_def power_int_minus_divide)
  have s2: "fl64 (5404319552844595 / 9007199254740992 + 3152519739159347 / 4503599627370496)
           = 1463669878895411 / 1125899906842624"
    using fl64_eval[of 0 "5404319552844595 / 9007199254740992 + 3152519739159347 / 4503599627370496"]
    by (simp add: round_half_even_def power_int_minus_divide)
  have s3: "fl64 (1463669878895411 / 1125899906842624 + 3602879701896397 / 4503599627370496)
           = 1182194902184755 / 562949953421312"
    using fl64_eval[of 1 "1463669878895411 / 1125899906842624 + 3602879701896397 / 4503599627370496"]
    by (simp add: round_half_even_def power_int_minus_divide)
  have m: "fl64 (1182194902184755 / 562949953421312 / 3) = 6305039478318693 / 9007199254740992"
    using fl64_eval[of "- 1" "1182194902184755 / 562949953421312 / 3"]
    by (simp add: round_half_even_def power_int_minus_divide)
  have "avg_score (scored_items hard_profile) ''hard''
          = fl64 (fl64 (fl64 (fl64 (fl64 (3 / 5)) + fl64 (7 / 10)) + fl64 (4 / 5)) / 3)"
    by (simp add: avg_score_def scored_items_def hard_profile_def)
  also have "\<dots> = 6305039478318693 / 9007199254740992"
    unfolding fl64_3_5 fl64_7_10 fl64_4_5 a s2 s3 m by (rule refl)
  finally show ?thesis .
qed

text \<open>
  The preferred difficulty is decided on the doubles: the exact average of 3/5, 7/10 and
  4/5 is 7/10, the average in doubles is 0.6999999999999998, below the double 0.7, and
  the profile is given "easy".
\<close>

lemma preferred_difficulty_in_doubles:
  "update_preferred_difficulty hard_profile = Inr (hard_profile\<lparr>preferred_difficulty := ''easy''\<rparr>)"
proof -
  have h: "\<not> fl64 (7 / 10) \<le> avg_score (scored_items hard_profile) ''hard''"
    unfolding hard_average_in_doubles fl64_7_10 by simp
  have m: "avg_score (scored_items hard_profile) ''medium'' = 0"
    by (simp add: avg_score_def scored_items_def hard_profile_def)
  have m': "\<not> fl64 (6 / 10) \<le> avg_score (scored_items hard_profile) ''medium''"
    unfolding m fl64_6_10 by simp
  have f: "find (\<lambda>(d, s). d \<notin> set difficulties) (scored_items hard_profile) = None"
    by (simp add: scored_items_def hard_profile_def difficulties_def)
  show ?thesis
    unfolding update_preferred_difficulty_def Let_def f using h m' by simp
qed

end
